theory Spec2Isabelle
  imports Complex_Main "HOL-Library.Sublist" "HOL-Library.AList"
begin

section \<open>Category taxonomy and tag classifier (app.js, lines 142-214)\<close>

text \<open>
  An element's attribute mapping is a JavaScript object with string values; it is a map
  from keys to values here. \<open>tags.tourism === "museum"\<close> is \<open>tags ''tourism'' = Some ''museum''\<close>:
  a missing key reads as \<open>undefined\<close>, which is not strictly equal to any string.
\<close>

type_synonym tagmap = "string \<rightharpoonup> string"

text \<open>
  \<open>getCategoryFromTags\<close>: the argument is \<open>None\<close> for a falsy value (\<open>null\<close>, \<open>undefined\<close>).
  The chain of \<open>if ... return\<close> statements is kept in the order of the source.
\<close>

definition getCategoryFromTags :: "tagmap option \<Rightarrow> string" where
  "getCategoryFromTags tags_arg =
    (case tags_arg of
       None \<Rightarrow> ''poi''
     | Some tags \<Rightarrow>
        if tags ''tourism'' = Some ''museum'' then ''museum''
        else if tags ''tourism'' = Some ''hotel'' then ''hotel''
        else if tags ''tourism'' = Some ''hostel'' then ''hostel''
        else if tags ''tourism'' = Some ''viewpoint'' then ''viewpoint''
        else if tags ''amenity'' = Some ''cafe'' then ''cafe''
        else if tags ''amenity'' = Some ''restaurant'' then ''restaurant''
        else if tags ''amenity'' = Some ''hospital'' then ''hospital''
        else if tags ''amenity'' = Some ''school'' then ''school''
        else if tags ''amenity'' = Some ''pharmacy'' then ''pharmacy''
        else if tags ''amenity'' = Some ''library'' then ''library''
        else if tags ''amenity'' = Some ''bank'' then ''bank''
        else if tags ''amenity'' = Some ''bar'' then ''bar''
        else if tags ''amenity'' = Some ''university'' then ''university''
        else if tags ''amenity'' = Some ''parking'' then ''parking''
        else if tags ''shop'' = Some ''supermarket'' then ''supermarket''
        else if tags ''shop'' = Some ''bakery'' then ''bakery''
        else if tags ''shop'' = Some ''hairdresser'' then ''hairdresser''
        else if tags ''leisure'' = Some ''park'' then ''park''
        else if tags ''leisure'' = Some ''garden'' then ''garden''
        else if tags ''leisure'' = Some ''sports_centre'' then ''sports_centre''
        else if tags ''leisure'' = Some ''pitch'' then ''pitch''
        else if tags ''leisure'' = Some ''playground'' then ''playground''
        else if tags ''leisure'' = Some ''dog_park'' then ''dog_park''
        else if tags ''historic'' = Some ''monument'' then ''monument''
        else if tags ''railway'' = Some ''station'' then ''station''
        else ''poi'')"

text \<open>
  The specification's reading of the classifier: a fixed, ordered list of
  (attribute key, attribute value, category) predicates, grouped tourism, amenity, shop,
  leisure, historic, railway, of which the first one that matches decides.
\<close>

definition tag_predicates :: "(string \<times> string \<times> string) list" where
  "tag_predicates =
    [(''tourism'', ''museum'', ''museum''),
     (''tourism'', ''hotel'', ''hotel''),
     (''tourism'', ''hostel'', ''hostel''),
     (''tourism'', ''viewpoint'', ''viewpoint''),
     (''amenity'', ''cafe'', ''cafe''),
     (''amenity'', ''restaurant'', ''restaurant''),
     (''amenity'', ''hospital'', ''hospital''),
     (''amenity'', ''school'', ''school''),
     (''amenity'', ''pharmacy'', ''pharmacy''),
     (''amenity'', ''library'', ''library''),
     (''amenity'', ''bank'', ''bank''),
     (''amenity'', ''bar'', ''bar''),
     (''amenity'', ''university'', ''university''),
     (''amenity'', ''parking'', ''parking''),
     (''shop'', ''supermarket'', ''supermarket''),
     (''shop'', ''bakery'', ''bakery''),
     (''shop'', ''hairdresser'', ''hairdresser''),
     (''leisure'', ''park'', ''park''),
     (''leisure'', ''garden'', ''garden''),
     (''leisure'', ''sports_centre'', ''sports_centre''),
     (''leisure'', ''pitch'', ''pitch''),
     (''leisure'', ''playground'', ''playground''),
     (''leisure'', ''dog_park'', ''dog_park''),
     (''historic'', ''monument'', ''monument''),
     (''railway'', ''station'', ''station'')]"

fun first_match :: "(string \<times> string \<times> string) list \<Rightarrow> tagmap \<Rightarrow> string" where
  "first_match [] tags = ''poi''"
| "first_match ((k, v, c) # ps) tags = (if tags k = Some v then c else first_match ps tags)"

text \<open>The groups of the priority list, in the order in which their keys first occur.\<close>

definition predicate_groups :: "string list" where
  "predicate_groups = remdups_adj (map fst tag_predicates)"

text \<open>
  \<open>CATEGORIES\<close>: the object literal as an association list in the order of its keys, which
  is the order \<open>Object.entries\<close> enumerates them in (none of the keys is an array index).
\<close>

record category_data =
  c_color :: string
  c_label :: string
  c_tags :: "string list"

definition CATEGORIES :: "(string \<times> category_data) list" where
  "CATEGORIES =
    [(''restaurant'', \<lparr>c_color = ''#E76F51'', c_label = ''Restaurants'', c_tags = [''amenity=restaurant'']\<rparr>),
     (''cafe'', \<lparr>c_color = ''#F4A261'', c_label = ''Cafes'', c_tags = [''amenity=cafe'']\<rparr>),
     (''bar'', \<lparr>c_color = ''#E63946'', c_label = ''Bars'', c_tags = [''amenity=bar'']\<rparr>),
     (''bakery'', \<lparr>c_color = ''#C19A6B'', c_label = ''Bakeries'', c_tags = [''shop=bakery'']\<rparr>),
     (''school'', \<lparr>c_color = ''#3A86FF'', c_label = ''Schools'', c_tags = [''amenity=school'']\<rparr>),
     (''university'', \<lparr>c_color = ''#0077B6'', c_label = ''Universities'', c_tags = [''amenity=university'']\<rparr>),
     (''library'', \<lparr>c_color = ''#6B5B95'', c_label = ''Libraries'', c_tags = [''amenity=library'']\<rparr>),
     (''museum'', \<lparr>c_color = ''#9D4EDD'', c_label = ''Museums'', c_tags = [''tourism=museum'']\<rparr>),
     (''monument'', \<lparr>c_color = ''#9B59B6'', c_label = ''Monuments'', c_tags = [''historic=monument'']\<rparr>),
     (''viewpoint'', \<lparr>c_color = ''#48CAE4'', c_label = ''Viewpoints'', c_tags = [''tourism=viewpoint'']\<rparr>),
     (''park'', \<lparr>c_color = ''#2A9D8F'', c_label = ''Parks'', c_tags = [''leisure=park'']\<rparr>),
     (''garden'', \<lparr>c_color = ''#52B788'', c_label = ''Gardens'', c_tags = [''leisure=garden'']\<rparr>),
     (''dog_park'', \<lparr>c_color = ''#95D5B2'', c_label = ''Dog Parks'', c_tags = [''leisure=dog_park'']\<rparr>),
     (''playground'', \<lparr>c_color = ''#FFC300'', c_label = ''Playgrounds'', c_tags = [''leisure=playground'']\<rparr>),
     (''sports_centre'', \<lparr>c_color = ''#E63946'', c_label = ''Sports'', c_tags = [''leisure=sports_centre'']\<rparr>),
     (''pitch'', \<lparr>c_color = ''#7FFFD4'', c_label = ''Pitches'', c_tags = [''leisure=pitch'']\<rparr>),
     (''hospital'', \<lparr>c_color = ''#E85D75'', c_label = ''Hospitals'', c_tags = [''amenity=hospital'']\<rparr>),
     (''pharmacy'', \<lparr>c_color = ''#06D6A0'', c_label = ''Pharmacies'', c_tags = [''amenity=pharmacy'']\<rparr>),
     (''bank'', \<lparr>c_color = ''#FFB703'', c_label = ''Banks'', c_tags = [''amenity=bank'']\<rparr>),
     (''supermarket'', \<lparr>c_color = ''#8338EC'', c_label = ''Supermarkets'', c_tags = [''shop=supermarket'']\<rparr>),
     (''hairdresser'', \<lparr>c_color = ''#F72585'', c_label = ''Hairdressers'', c_tags = [''shop=hairdresser'']\<rparr>),
     (''hotel'', \<lparr>c_color = ''#FB5607'', c_label = ''Hotels'', c_tags = [''tourism=hotel'']\<rparr>),
     (''hostel'', \<lparr>c_color = ''#F77F00'', c_label = ''Hostels'', c_tags = [''tourism=hostel'']\<rparr>),
     (''station'', \<lparr>c_color = ''#2C3E50'', c_label = ''Stations'', c_tags = [''railway=station'']\<rparr>),
     (''parking'', \<lparr>c_color = ''#6C757D'', c_label = ''Parking'', c_tags = [''amenity=parking'']\<rparr>),
     (''poi'', \<lparr>c_color = ''#ADB5BD'', c_label = ''Other POIs'', c_tags = []\<rparr>)]"

text \<open>
  \<open>CATEGORIES[category]?.color || CATEGORIES.poi.color\<close> (renderData, line 591). The
  boolean says whether the right operand of \<open>||\<close> was evaluated: it is when the key is
  missing or its colour is the empty string.
\<close>

definition poi_color :: string where
  "poi_color = (case map_of CATEGORIES ''poi'' of Some d \<Rightarrow> c_color d | None \<Rightarrow> [])"

definition color_lookup :: "string \<Rightarrow> string \<times> bool" where
  "color_lookup category =
    (case map_of CATEGORIES category of
       Some d \<Rightarrow> if c_color d \<noteq> [] then (c_color d, False) else (poi_color, True)
     | None \<Rightarrow> (poi_color, True))"


section \<open>Geometry resolver (getCentroid, app.js lines 607-634)\<close>

text \<open>
  A GeoJSON geometry is a discriminated union on its \<open>type\<close> field. A position is a pair
  (longitude, latitude): the source destructures \<open>[lng, lat]\<close> and reads nothing else of it.
  A coordinate is given by the number that stands in the JSON text; the program holds the
  double nearest to it (\<open>round_double\<close> below), which is the number itself when that is a
  double. A geometry of any other type (LineString, MultiPoint, ...) carries the name of its type.
\<close>

type_synonym position = "real \<times> real"

datatype geometry =
    Point position
  | Polygon "position list list"
  | MultiPolygon "position list list list"
  | OtherGeometry string

subsection \<open>Double arithmetic\<close>

text \<open>
  A JavaScript number is an IEEE 754 double: a finite value, an infinity or \<open>NaN\<close>. The two
  zeros are one value here: nothing in the source tells them apart.
\<close>

datatype double = Fin real | PInf | NInf | NaN

definition pow2 :: "int \<Rightarrow> real" where
  "pow2 e = (if e \<ge> 0 then 2 ^ nat e else 1 / 2 ^ nat (- e))"

text \<open>The binary exponent of a positive number: \<open>2 ^ ilog2 q \<le> q < 2 ^ (ilog2 q + 1)\<close>.\<close>

function ilog2_up :: "real \<Rightarrow> int" where
  "ilog2_up q = (if q < 2 then 0 else ilog2_up (q / 2) + 1)"
  by pat_completeness auto
termination
proof (relation "measure (\<lambda>q. nat \<lfloor>q\<rfloor>)")
  show "wf (measure (\<lambda>q::real. nat \<lfloor>q\<rfloor>))" by simp
next
  fix q :: real assume "\<not> q < 2"
  then have q: "2 \<le> q" by simp
  then have "q / 2 \<le> q - 1" by simp
  then have "\<lfloor>q / 2\<rfloor> \<le> \<lfloor>q - 1\<rfloor>" by (rule floor_mono)
  then have a: "\<lfloor>q / 2\<rfloor> < \<lfloor>q\<rfloor>" by simp
  from q have "2 \<le> \<lfloor>q\<rfloor>" by (simp add: le_floor_iff)
  with a show "(q / 2, q) \<in> measure (\<lambda>q. nat \<lfloor>q\<rfloor>)" by simp
qed

function ilog2_down :: "real \<Rightarrow> int" where
  "ilog2_down q = (if q \<le> 0 \<or> 1 \<le> q then 0 else ilog2_down (2 * q) - 1)"
  by pat_completeness auto
termination
proof (relation "measure (\<lambda>q. nat \<lceil>1 / q\<rceil>)")
  show "wf (measure (\<lambda>q::real. nat \<lceil>1 / q\<rceil>))" by simp
next
  fix q :: real assume "\<not> (q \<le> 0 \<or> 1 \<le> q)"
  then have q: "0 < q" "q < 1" by simp_all
  then have x: "1 < 1 / q" by simp
  then have c: "2 \<le> \<lceil>1 / q\<rceil>" by (simp add: le_ceiling_iff)
  have "1 / (2 * q) = (1 / q) / 2" by simp
  also have "\<dots> \<le> of_int \<lceil>1 / q\<rceil> / 2" by (simp add: divide_right_mono)
  also have "\<dots> \<le> of_int (\<lceil>1 / q\<rceil> - 1)" using c by simp
  finally have "\<lceil>1 / (2 * q)\<rceil> \<le> \<lceil>1 / q\<rceil> - 1" by (simp only: ceiling_le_iff)
  with c q show "(2 * q, q) \<in> measure (\<lambda>q. nat \<lceil>1 / q\<rceil>)" by simp
qed

declare ilog2_up.simps [simp del] ilog2_down.simps [simp del]

definition ilog2 :: "real \<Rightarrow> int" where
  "ilog2 q = (if 1 \<le> q then ilog2_up q else ilog2_down q)"

text \<open>Rounding to the nearest integer, a tie going to the even one.\<close>

definition round_half_even :: "real \<Rightarrow> int" where
  "round_half_even x =
    (let f = \<lfloor>x\<rfloor>; r = x - of_int f
     in if r < 1 / 2 then f else if r > 1 / 2 then f + 1 else if even f then f else f + 1)"

text \<open>
  The double nearest to a real, ties to the even significand: 53 significant bits, the
  exponent of the last place not below -1074 (the subnormal numbers), and an infinity for
  what rounds to 2^1024 or beyond.
\<close>

definition round_double :: "real \<Rightarrow> double" where
  "round_double q =
    (if q = 0 then Fin 0
     else
       (let a = \<bar>q\<bar>;
            e = max (ilog2 a - 52) (- 1074);
            m = round_half_even (a / pow2 e);
            v = of_int m * pow2 e
        in if v \<ge> pow2 1024 then (if q > 0 then PInf else NInf)
           else Fin (if q > 0 then v else - v)))"

text \<open>\<open>x + y\<close> on doubles.\<close>

fun fadd :: "double \<Rightarrow> double \<Rightarrow> double" where
  "fadd NaN y = NaN"
| "fadd x NaN = NaN"
| "fadd PInf NInf = NaN"
| "fadd NInf PInf = NaN"
| "fadd PInf y = PInf"
| "fadd x PInf = PInf"
| "fadd NInf y = NInf"
| "fadd x NInf = NInf"
| "fadd (Fin a) (Fin b) = round_double (a + b)"

text \<open>\<open>x / n\<close> for the length \<open>n\<close> of an array, which is a double exactly.\<close>

fun fdiv :: "double \<Rightarrow> nat \<Rightarrow> double" where
  "fdiv NaN n = NaN"
| "fdiv PInf n = PInf"
| "fdiv NInf n = NInf"
| "fdiv (Fin a) n =
     (if n = 0 then (if a = 0 then NaN else if a > 0 then PInf else NInf)
      else round_double (a / of_nat n))"

subsection \<open>getCentroid\<close>

datatype error = TypeError | LngLatError

text \<open>
  The \<open>forEach\<close> loop that accumulates \<open>sumLng\<close> and \<open>sumLat\<close> from 0, followed by the two
  divisions by \<open>coords.length\<close>. Over an empty ring both sums are 0, and \<open>0 / 0\<close> is \<open>NaN\<close>.
\<close>

fun sum_ring :: "position list \<Rightarrow> double \<times> double \<Rightarrow> double \<times> double" where
  "sum_ring [] acc = acc"
| "sum_ring ((lng, lat) # coords) (sumLng, sumLat) =
     sum_ring coords (fadd sumLng (round_double lng), fadd sumLat (round_double lat))"

definition ring_average :: "position list \<Rightarrow> double \<times> double" where
  "ring_average coords =
    (let (sumLng, sumLat) = sum_ring coords (Fin 0, Fin 0) in
     (fdiv sumLng (length coords), fdiv sumLat (length coords)))"

text \<open>
  \<open>getCentroid\<close> returns a coordinate pair or \<open>null\<close> (\<open>Inr None\<close>), or throws: with no ring
  at all, \<open>geometry.coordinates[0]\<close> is \<open>undefined\<close> and \<open>coords.forEach\<close> is a TypeError;
  with no polygon at all, \<open>geometry.coordinates[0][0]\<close> is one.
\<close>

fun getCentroid :: "geometry \<Rightarrow> error + (double \<times> double) option" where
  "getCentroid (Point (lng, lat)) = Inr (Some (round_double lng, round_double lat))"
| "getCentroid (Polygon []) = Inl TypeError"
| "getCentroid (Polygon (coords # holes)) = Inr (Some (ring_average coords))"
| "getCentroid (MultiPolygon []) = Inl TypeError"
| "getCentroid (MultiPolygon ([] # polygons)) = Inl TypeError"
| "getCentroid (MultiPolygon ((coords # holes) # polygons)) = Inr (Some (ring_average coords))"
| "getCentroid (OtherGeometry ty) = Inr None"

section \<open>Layer store, legend and chat (app.js lines 10-21, 109-140, 696-766)\<close>

text \<open>
  A marker is the handle the map library returns. Of what the source puts into it, the
  position and the tooltip title are kept; the popup's HTML is presentation only.
\<close>

record marker =
  m_lnglat :: "double \<times> double"
  m_title :: string

record layer =
  l_markers :: "marker list"
  l_name :: string
  l_category :: string
  l_color :: string

text \<open>One \<open>.legend-item\<close> element: its data-category, label, count text, the \<open>active\<close>
  class and whether the remove button is displayed.\<close>

record legend_item =
  li_category :: string
  li_label :: string
  li_count :: nat
  li_active :: bool
  li_remove_shown :: bool

text \<open>The texts the source passes to \<open>addMessage\<close> and \<open>console.log\<close>, one constructor for
  each template, with the values the template interpolates.\<close>

datatype message =
    NoResultsFound
  | FoundResults nat
  | ErrorMessage error

datatype log_entry = Rendered nat nat

text \<open>
  The global state: \<open>layers\<close> is a JavaScript object used as a dictionary. Its keys are
  enumerated in insertion order (no layer identifier is an array index: each starts with a
  category name), so it is an association list; assigning to an existing key keeps the
  key's place.
\<close>

record state =
  layers :: "(string \<times> layer) list"
  legend :: "legend_item list"
  chat :: "(string \<times> message) list"
  console :: "log_entry list"

definition addMessage :: "string \<Rightarrow> message \<Rightarrow> state \<Rightarrow> state" where
  "addMessage sender text st = st\<lparr>chat := chat st @ [(sender, text)]\<rparr>"

text \<open>\<open>initLegend\<close>: one item for each entry of \<open>CATEGORIES\<close>, except that the callback
  returns at once for the key \<open>poi\<close>.\<close>

definition initLegend :: "state \<Rightarrow> state" where
  "initLegend st =
    st\<lparr>legend :=
      concat (map (\<lambda>(categoryKey, categoryData).
        if categoryKey = ''poi'' then []
        else [\<lparr>li_category = categoryKey, li_label = c_label categoryData,
               li_count = 0, li_active = False, li_remove_shown = False\<rparr>]) CATEGORIES)\<rparr>"

text \<open>\<open>updateLegend\<close>: the counts are accumulated over \<open>Object.values(layers)\<close>, then every
  existing legend item is written.\<close>

fun count_layers :: "layer list \<Rightarrow> (string \<rightharpoonup> nat) \<Rightarrow> (string \<rightharpoonup> nat)" where
  "count_layers [] categoryCounts = categoryCounts"
| "count_layers (l # ls) categoryCounts =
     count_layers ls
       (categoryCounts(l_category l \<mapsto>
          (case categoryCounts (l_category l) of None \<Rightarrow> 0 | Some n \<Rightarrow> n) + length (l_markers l)))"

definition update_item :: "(string \<rightharpoonup> nat) \<Rightarrow> legend_item \<Rightarrow> legend_item" where
  "update_item categoryCounts item =
    (let count = (case categoryCounts (li_category item) of None \<Rightarrow> 0 | Some n \<Rightarrow> n) in
     if count > 0 then item\<lparr>li_count := count, li_active := True, li_remove_shown := True\<rparr>
     else item\<lparr>li_count := count, li_active := False, li_remove_shown := False\<rparr>)"

definition updateLegend :: "state \<Rightarrow> state" where
  "updateLegend st =
    (let categoryCounts = count_layers (map snd (layers st)) Map.empty in
     st\<lparr>legend := map (update_item categoryCounts) (legend st)\<rparr>)"

text \<open>The three removals. Detaching a marker from the map leaves no trace in this state:
  the markers of a layer are gone with the layer.\<close>

definition clearAllLayers :: "state \<Rightarrow> state" where
  "clearAllLayers st = updateLegend (st\<lparr>layers := []\<rparr>)"

definition removeLayer :: "string \<Rightarrow> state \<Rightarrow> state" where
  "removeLayer layerId st =
    (if map_of (layers st) layerId \<noteq> None
     then updateLegend (st\<lparr>layers := AList.delete layerId (layers st)\<rparr>)
     else st)"

definition removeCategoryLayers :: "string \<Rightarrow> state \<Rightarrow> state" where
  "removeCategoryLayers category st =
    (let layerIdsToRemove = map fst (filter (\<lambda>(layerId, l). l_category l = category) (layers st)) in
     updateLegend (st\<lparr>layers := fold AList.delete layerIdsToRemove (layers st)\<rparr>))"

text \<open>The sum of the marker counts of the layers of one category: what the specification
  calls \<open>countsByCategory\<close>.\<close>

definition countsByCategory :: "(string \<times> layer) list \<Rightarrow> string \<Rightarrow> nat" where
  "countsByCategory ls category =
    sum_list (map (\<lambda>(layerId, l). length (l_markers l)) (filter (\<lambda>(layerId, l). l_category l = category) ls))"


section \<open>Rendering pipeline (renderData, app.js lines 557-694)\<close>

text \<open>
  A feature as the converter delivers it: a geometry, or none, and a \<open>properties\<close> object, or
  none. Of \<open>properties\<close> the source reads \<open>properties.tags\<close> (an object or absent) and, when
  that is absent, the string-valued fields of \<open>properties\<close> itself.
\<close>

record properties =
  p_tags :: "tagmap option"
  p_fields :: tagmap

record feature =
  f_geometry :: "geometry option"
  f_properties :: "properties option"

text \<open>\<open>f.properties?.tags || f.properties || {}\<close>: every object is truthy, the empty one too.\<close>

definition feature_tags :: "feature \<Rightarrow> tagmap" where
  "feature_tags f =
    (case f_properties f of
       None \<Rightarrow> Map.empty
     | Some p \<Rightarrow> (case p_tags p of Some t \<Rightarrow> t | None \<Rightarrow> p_fields p))"

text \<open>\<open>a || d\<close> on strings: the left operand unless it is \<open>undefined\<close> or empty.\<close>

fun or_str :: "string option \<Rightarrow> string \<Rightarrow> string" where
  "or_str None d = d"
| "or_str (Some s) d = (if s = [] then d else s)"

definition marker_title :: "feature \<Rightarrow> string" where
  "marker_title f =
    (let tags = feature_tags f in
     or_str (tags ''name'') (or_str (tags ''name:en'') (or_str (tags ''name:es'')
       (or_str (case f_properties f of None \<Rightarrow> None | Some p \<Rightarrow> p_fields p ''name'') ''Unnamed''))))"

text \<open>The detection loop: \<open>for (let i = 0; i < Math.min(features.length, 10); i++)\<close> with its
  \<open>break\<close> at the first category other than \<open>poi\<close>.\<close>

function detect_loop :: "feature list \<Rightarrow> nat \<Rightarrow> string" where
  "detect_loop features i =
    (if i < min (length features) 10 then
       (let cat = getCategoryFromTags (Some (feature_tags (features ! i))) in
        if cat \<noteq> ''poi'' then cat else detect_loop features (i + 1))
     else ''poi'')"
  by pat_completeness auto
termination
  by (relation "measure (\<lambda>(features, i). min (length features) 10 - i)") auto

declare detect_loop.simps [simp del]

definition detectedCategory :: "feature list \<Rightarrow> string" where
  "detectedCategory features = detect_loop features 0"

text \<open>
  The decimal text of an integer, as a template literal prints the value of \<open>Date.now()\<close>
  (an integral number of milliseconds, far below the 10^21 from which JavaScript switches to
  exponent notation).
\<close>

definition digit_char :: "nat \<Rightarrow> char" where
  "digit_char d = ''0123456789'' ! d"

function show_nat :: "nat \<Rightarrow> string" where
  "show_nat n = (if n < 10 then [digit_char n] else show_nat (n div 10) @ [digit_char (n mod 10)])"
  by pat_completeness auto
termination
  by (relation "measure id") auto

declare show_nat.simps [simp del]

definition show_int :: "int \<Rightarrow> string" where
  "show_int i = (if i < 0 then CHR ''-'' # show_nat (nat (- i)) else show_nat (nat i))"

text \<open>The layer identifier and name (lines 596-597); \<open>place_name\<close> is \<open>queryInfo.place_name\<close>,
  \<open>now\<close> the value of \<open>Date.now()\<close>.\<close>

definition make_layerId :: "string \<Rightarrow> string option \<Rightarrow> int \<Rightarrow> string" where
  "make_layerId category place_name now =
    category @ ''_'' @ or_str place_name ''unknown'' @ ''_'' @ show_int now"

definition make_layerName :: "string \<Rightarrow> string option \<Rightarrow> string" where
  "make_layerName category place_name = category @ '' ('' @ or_str place_name ''unknown'' @ '')''"

text \<open>\<open>layers[layerId].markers.push(marker)\<close>.\<close>

definition push_marker :: "string \<Rightarrow> marker \<Rightarrow> state \<Rightarrow> state" where
  "push_marker layerId m st =
    st\<lparr>layers := AList.map_entry layerId (\<lambda>l. l\<lparr>l_markers := l_markers l @ [m]\<rparr>) (layers st)\<rparr>"

text \<open>
  The marker loop, \<open>features.forEach\<close> with the two counters. A TypeError thrown by
  \<open>getCentroid\<close> leaves the loop and \<open>renderData\<close> with the state as it is at that moment.
  An array is truthy whatever it holds, so \<open>if (!coords)\<close> is taken for \<open>null\<close> only.

  The marker is made by the map library, which is not part of the source:
  \<open>new maplibregl.Marker(...).setLngLat([lng, lat])\<close> checks the position and throws for one
  it does not accept, before the marker is pushed onto the layer. Which positions the
  library accepts is the parameter \<open>accepts\<close>.
\<close>

fun create_markers ::
  "(double \<times> double \<Rightarrow> bool) \<Rightarrow> string \<Rightarrow> feature list \<Rightarrow> state \<times> nat \<times> nat
     \<Rightarrow> (error \<times> state) + (state \<times> nat \<times> nat)" where
  "create_markers accepts layerId [] acc = Inr acc"
| "create_markers accepts layerId (f # fs) (st, pointCount, skippedCount) =
    (case f_geometry f of
       None \<Rightarrow> create_markers accepts layerId fs (st, pointCount, skippedCount + 1)
     | Some g \<Rightarrow>
        (case getCentroid g of
           Inl e \<Rightarrow> Inl (e, st)
         | Inr None \<Rightarrow> create_markers accepts layerId fs (st, pointCount, skippedCount + 1)
         | Inr (Some coords) \<Rightarrow>
             if accepts coords then
               create_markers accepts layerId fs
                 (push_marker layerId \<lparr>m_lnglat = coords, m_title = marker_title f\<rparr> st,
                  pointCount + 1, skippedCount)
             else Inl (LngLatError, st)))"

text \<open>
  \<open>renderData\<close>: \<open>geojson\<close> is \<open>None\<close> when the collection or its \<open>features\<close> array is missing.
  The result is the error thrown, if any, and the state. The unused parameter
  \<open>styleDefinitions\<close> and the map's viewport are left out.
\<close>

definition renderData ::
  "(double \<times> double \<Rightarrow> bool) \<Rightarrow> state \<Rightarrow> feature list option \<Rightarrow> string option \<Rightarrow> int
     \<Rightarrow> error option \<times> state" where
  "renderData accepts st geojson place_name now =
    (case geojson of
       None \<Rightarrow> (None, addMessage ''Agent'' NoResultsFound st)
     | Some features \<Rightarrow>
        if length features = 0 then (None, addMessage ''Agent'' NoResultsFound st)
        else
          (let category = detectedCategory features;
               color = fst (color_lookup category);
               layerId = make_layerId category place_name now;
               layerName = make_layerName category place_name;
               st1 = st\<lparr>layers := AList.update layerId
                       \<lparr>l_markers = [], l_name = layerName, l_category = category, l_color = color\<rparr>
                       (layers st)\<rparr>
           in case create_markers accepts layerId features (st1, 0, 0) of
                Inl (e, st') \<Rightarrow> (Some e, st')
              | Inr (st2, pointCount, skippedCount) \<Rightarrow>
                  (None, updateLegend (st2\<lparr>console := console st2 @ [Rendered pointCount skippedCount]\<rparr>))))"

text \<open>
  The end of the send button's handler (lines 822-827), from the moment the query's result
  is there: \<open>await renderData(...)\<close>, then the completion message, with the \<open>catch\<close> clause
  around both. Reading \<open>geojson.features.length\<close> of a missing collection is a TypeError.
\<close>

definition send_onclick ::
  "(double \<times> double \<Rightarrow> bool) \<Rightarrow> state \<Rightarrow> feature list option \<Rightarrow> string \<Rightarrow> int \<Rightarrow> state" where
  "send_onclick accepts st geojson placeName now =
    (case renderData accepts st geojson (Some placeName) now of
       (Some e, st') \<Rightarrow> addMessage ''Agent'' (ErrorMessage e) st'
     | (None, st') \<Rightarrow>
        (case geojson of
           None \<Rightarrow> addMessage ''Agent'' (ErrorMessage TypeError) st'
         | Some features \<Rightarrow> addMessage ''Agent'' (FoundResults (length features)) st'))"

section \<open>Query normalisation (fetchOverpass, app.js lines 60-84)\<close>

text \<open>
  A string is a list of code units; a \<open>char\<close> holds the code units up to 255, so a query is
  taken to be written in that range. Of these, JavaScript's \<open>trim\<close> and the class \<open>\s\<close>
  of its regular expressions count the same seven as white space: TAB, LF, VT, FF, CR,
  space and the no-break space.
\<close>

definition is_ws :: "char \<Rightarrow> bool" where
  "is_ws c = (c \<in> set [CHR 0x09, CHR 0x0A, CHR 0x0B, CHR 0x0C, CHR 0x0D, CHR 0x20, CHR 0xA0])"

definition trim :: "string \<Rightarrow> string" where
  "trim s = rev (dropWhile is_ws (rev (dropWhile is_ws s)))"

text \<open>\<open>s.includes(p)\<close>: \<open>p\<close> occurs at some position of \<open>s\<close>.\<close>

fun str_includes :: "string \<Rightarrow> string \<Rightarrow> bool" where
  "str_includes [] p = (p = [])"
| "str_includes (c # cs) p = (prefix p (c # cs) \<or> str_includes cs p)"

text \<open>\<open>s.replace(p, r)\<close> with a string pattern: the first occurrence of \<open>p\<close> is replaced
  (\<open>r\<close> holds no \<open>$\<close> in the source, so it is inserted as it is).\<close>

fun replace_first :: "string \<Rightarrow> string \<Rightarrow> string \<Rightarrow> string" where
  "replace_first [] p r = (if p = [] then r else [])"
| "replace_first (c # cs) p r =
     (if prefix p (c # cs) then r @ drop (length p) (c # cs) else c # replace_first cs p r)"

text \<open>
  \<open>s.replace(/;out body;?$/g, ';out geom;')\<close>. Without the flag \<open>m\<close>, \<open>$\<close> is the end of the
  input, so the expression matches at a position exactly when the rest of the string from
  there is \<open>;out body;\<close> or \<open>;out body\<close>. The scan goes from the left; a match reaches the
  end of the string, so the flag \<open>g\<close> finds no second one.
\<close>

fun replace_out_body :: "string \<Rightarrow> string" where
  "replace_out_body [] = []"
| "replace_out_body (c # cs) =
     (if c # cs = '';out body;'' \<or> c # cs = '';out body'' then '';out geom;''
      else c # replace_out_body cs)"

text \<open>
  \<open>s.match(/\);\s*\)/)\<close> as a truth value: somewhere in \<open>s\<close> there is \<open>);\<close>, then white
  space, then \<open>)\<close>. A closing parenthesis is not white space, so the greedy \<open>\s*\<close> has one way
  to match only: all the white space there is.
\<close>

fun matches_close :: "string \<Rightarrow> bool" where
  "matches_close [] = False"
| "matches_close (c # cs) =
     ((c = CHR '')'' \<and>
       (case cs of
          [] \<Rightarrow> False
        | d # r \<Rightarrow> d = CHR '';'' \<and> (case dropWhile is_ws r of [] \<Rightarrow> False | e # _ \<Rightarrow> e = CHR '')'')))
      \<or> matches_close cs)"

text \<open>\<open>s.replace(/\);$/, ');out geom 500;')\<close>: the expression matches where the rest of the
  string is \<open>);\<close>.\<close>

fun replace_close_end :: "string \<Rightarrow> string" where
  "replace_close_end [] = []"
| "replace_close_end (c # cs) =
     (if c # cs = '');'' then '');out geom 500;'' else c # replace_close_end cs)"

text \<open>The value of \<open>fullQuery\<close> that \<open>fetchOverpass\<close> posts, as a function of its argument.\<close>

definition fullQuery :: "string \<Rightarrow> string" where
  "fullQuery query =
    (let q0 = trim query;
         q1 = (if \<not> prefix ''[out:json]'' q0 then ''[out:json][timeout:25];'' @ q0
               else if \<not> str_includes q0 ''[timeout:'' then replace_first q0 ''[out:json]'' ''[out:json][timeout:25]''
               else q0);
         q2 = replace_out_body q1
     in if \<not> matches_close q2 then replace_close_end q2 else q2)"


text \<open>The query after the first two steps: trimmed, and with the directive and its timeout.\<close>

definition with_directive :: "string \<Rightarrow> string" where
  "with_directive query =
    (let q0 = trim query in
     if \<not> prefix ''[out:json]'' q0 then ''[out:json][timeout:25];'' @ q0
     else if \<not> str_includes q0 ''[timeout:'' then replace_first q0 ''[out:json]'' ''[out:json][timeout:25]''
     else q0)"

text \<open>
  Notions of the specification, for stating its claims. An element is placeable when its
  geometry is a Point, a Polygon or a MultiPolygon. It is well shaped when it has a
  centroid and nothing throws on it: \<open>getCentroid\<close> does not throw (it does for a Polygon
  with no ring and for a MultiPolygon with no polygon or whose first polygon has no ring),
  the position it returns holds no \<open>NaN\<close> (it does for an empty outer ring), and the map
  library accepts that position. \<open>markers_of\<close> lists the markers the loop creates for a
  sequence of such elements.
\<close>

definition placeable :: "feature \<Rightarrow> bool" where
  "placeable f =
    (case f_geometry f of
       None \<Rightarrow> False
     | Some g \<Rightarrow> (case g of OtherGeometry ty \<Rightarrow> False | _ \<Rightarrow> True))"

text \<open>Neither coordinate is \<open>NaN\<close>. As a map library, it is one that accepts a position
  exactly when it holds no \<open>NaN\<close>.\<close>

definition no_nan :: "double \<times> double \<Rightarrow> bool" where
  "no_nan coords = (fst coords \<noteq> NaN \<and> snd coords \<noteq> NaN)"

definition well_shaped :: "(double \<times> double \<Rightarrow> bool) \<Rightarrow> feature \<Rightarrow> bool" where
  "well_shaped accepts f =
    (case f_geometry f of
       None \<Rightarrow> True
     | Some g \<Rightarrow>
        (case getCentroid g of
           Inl e \<Rightarrow> False
         | Inr None \<Rightarrow> True
         | Inr (Some coords) \<Rightarrow> no_nan coords \<and> accepts coords))"

definition markers_of :: "feature list \<Rightarrow> marker list" where
  "markers_of fs =
    concat (map (\<lambda>f.
      case f_geometry f of
        None \<Rightarrow> []
      | Some g \<Rightarrow>
         (case getCentroid g of
            Inr (Some coords) \<Rightarrow> [\<lparr>m_lnglat = coords, m_title = marker_title f\<rparr>]
          | _ \<Rightarrow> [])) fs)"

text \<open>The legend agrees with the store: its items are the categories of the taxonomy other
  than \<open>poi\<close>, in order, each with the count derived from the store, active and with its
  remove button shown exactly when that count is positive.\<close>

definition legend_synced :: "state \<Rightarrow> bool" where
  "legend_synced st =
    (map li_category (legend st) = filter (\<lambda>k. k \<noteq> ''poi'') (map fst CATEGORIES)
     \<and> list_all (\<lambda>item.
          li_count item = countsByCategory (layers st) (li_category item)
          \<and> li_active item = (li_count item > 0)
          \<and> li_remove_shown item = (li_count item > 0)) (legend st))"

text \<open>The state of the page once it is loaded: no layer, and the legend as \<open>initLegend\<close>
  builds it.\<close>

definition initial_state :: state where
  "initial_state = initLegend \<lparr>layers = [], legend = [], chat = [], console = []\<rparr>"

text \<open>Appending a list of markers to a layer: what a run of \<open>push_marker\<close> amounts to.\<close>

definition add_markers :: "string \<Rightarrow> marker list \<Rightarrow> state \<Rightarrow> state" where
  "add_markers lid ms st =
    st\<lparr>layers := AList.map_entry lid (\<lambda>l. l\<lparr>l_markers := l_markers l @ ms\<rparr>) (layers st)\<rparr>"

text \<open>Elements for the examples: two cafes given as points, a cafe given as a square, a
  point without attributes, a line, an element without geometry, a polygon whose outer ring
  is empty and a polygon with no ring at all.\<close>

definition cafe_point :: feature where
  "cafe_point =
    \<lparr>f_geometry = Some (Point (2.125, 41.375)),
     f_properties = Some \<lparr>p_tags = None, p_fields = [''amenity'' \<mapsto> ''cafe'', ''name'' \<mapsto> ''Granja'']\<rparr>\<rparr>"

definition cafe_point2 :: feature where
  "cafe_point2 =
    \<lparr>f_geometry = Some (Point (2.25, 41.25)),
     f_properties = Some \<lparr>p_tags = Some [''amenity'' \<mapsto> ''cafe''], p_fields = Map.empty\<rparr>\<rparr>"

definition cafe_square :: feature where
  "cafe_square =
    \<lparr>f_geometry = Some (Polygon [[(0, 0), (0, 2), (2, 2), (2, 0)]]),
     f_properties = Some \<lparr>p_tags = Some [''amenity'' \<mapsto> ''cafe''], p_fields = Map.empty\<rparr>\<rparr>"

definition plain_point :: feature where
  "plain_point = \<lparr>f_geometry = Some (Point (2.5, 41.5)), f_properties = None\<rparr>"

definition line_feature :: feature where
  "line_feature = \<lparr>f_geometry = Some (OtherGeometry ''LineString''), f_properties = None\<rparr>"

definition no_geometry :: feature where
  "no_geometry = \<lparr>f_geometry = None, f_properties = None\<rparr>"

definition empty_ring_polygon :: feature where
  "empty_ring_polygon = \<lparr>f_geometry = Some (Polygon [[]]), f_properties = None\<rparr>"

definition no_ring_polygon :: feature where
  "no_ring_polygon = \<lparr>f_geometry = Some (Polygon []), f_properties = None\<rparr>"

definition five_features :: "feature list" where
  "five_features = [cafe_point, line_feature, cafe_square, no_geometry, cafe_point2]"

text \<open>
  A real is a double when rounding leaves it as it is. The running sums of a list, started
  from \<open>a\<close>, are exact when every element and every sum is a double: then no addition
  rounds.
\<close>

definition is_double :: "real \<Rightarrow> bool" where
  "is_double x = (round_double x = Fin x)"

fun exact_sums :: "real \<Rightarrow> real list \<Rightarrow> bool" where
  "exact_sums a [] = True"
| "exact_sums a (x # xs) = (is_double x \<and> is_double (a + x) \<and> exact_sums (a + x) xs)"

text \<open>The doubles nearest to 0.1, 0.2 and 0.3, and a ring with the longitudes 0.1, 0.2 and
  0.3.\<close>

definition double_0_1 :: real where
  "double_0_1 = 3602879701896397 / 2 ^ 55"

definition double_0_2 :: real where
  "double_0_2 = 3602879701896397 / 2 ^ 54"

definition double_0_3 :: real where
  "double_0_3 = 5404319552844595 / 2 ^ 54"

definition tenths_ring :: "position list" where
  "tenths_ring = [(0.1, 0), (0.2, 0), (0.3, 0)]"

text \<open>Reading a count off the table \<open>categoryCounts\<close>: \<open>categoryCounts[category] || 0\<close>.\<close>

abbreviation count_val :: "(string \<rightharpoonup> nat) \<Rightarrow> string \<Rightarrow> nat" where
  "count_val m c \<equiv> (case m c of None \<Rightarrow> 0 | Some n \<Rightarrow> n)"

text \<open>The classification of an element, as the detection loop computes it.\<close>

abbreviation classification :: "feature \<Rightarrow> string" where
  "classification f \<equiv> getCategoryFromTags (Some (feature_tags f))"

section \<open>The tag classifier is the priority list\<close>

lemma getCategoryFromTags_first_match:
  "getCategoryFromTags (Some t) = first_match tag_predicates t"
  unfolding getCategoryFromTags_def tag_predicates_def by simp

lemma first_match_find:
  "first_match ps t =
     (case find (\<lambda>(k, v, c). t k = Some v) ps of None \<Rightarrow> ''poi'' | Some (k, v, c) \<Rightarrow> c)"
  by (induction ps) auto

lemma predicate_groups_eq:
  "predicate_groups = [''tourism'', ''amenity'', ''shop'', ''leisure'', ''historic'', ''railway'']"
  unfolding predicate_groups_def tag_predicates_def by simp

text \<open>
  Claim C7. The tag classifier returns \<open>poi\<close> for an absent mapping; for a mapping it returns
  the category of the first predicate of the ordered list that the mapping satisfies, and
  \<open>poi\<close> when there is none. The list is grouped tourism, amenity, shop, leisure, historic,
  railway. A mapping with tourism=museum and amenity=cafe is a museum, one with amenity=cafe
  alone is a cafe, and the empty mapping is \<open>poi\<close>.
\<close>

theorem getCategoryFromTags_priority:
  "getCategoryFromTags None = ''poi''
   \<and> getCategoryFromTags (Some t) =
       (case find (\<lambda>(k, v, c). t k = Some v) tag_predicates of
          None \<Rightarrow> ''poi'' | Some (k, v, c) \<Rightarrow> c)
   \<and> predicate_groups = [''tourism'', ''amenity'', ''shop'', ''leisure'', ''historic'', ''railway'']
   \<and> getCategoryFromTags (Some [''tourism'' \<mapsto> ''museum'', ''amenity'' \<mapsto> ''cafe'']) = ''museum''
   \<and> getCategoryFromTags (Some [''amenity'' \<mapsto> ''cafe'']) = ''cafe''
   \<and> getCategoryFromTags (Some Map.empty) = ''poi''"
proof -
  have a: "getCategoryFromTags None = ''poi''"
    by (simp add: getCategoryFromTags_def)
  have b: "getCategoryFromTags (Some t) =
       (case find (\<lambda>(k, v, c). t k = Some v) tag_predicates of
          None \<Rightarrow> ''poi'' | Some (k, v, c) \<Rightarrow> c)"
    by (simp only: getCategoryFromTags_first_match first_match_find)
  have c: "getCategoryFromTags (Some [''tourism'' \<mapsto> ''museum'', ''amenity'' \<mapsto> ''cafe'']) = ''museum''"
    by (simp add: getCategoryFromTags_def)
  have d: "getCategoryFromTags (Some [''amenity'' \<mapsto> ''cafe'']) = ''cafe''"
    by (simp add: getCategoryFromTags_def)
  have e: "getCategoryFromTags (Some Map.empty) = ''poi''"
    by (simp add: getCategoryFromTags_def)
  from a b predicate_groups_eq c d e show ?thesis by blast
qed

section \<open>Every classification is a key of the taxonomy\<close>

lemma getCategoryFromTags_in_CATEGORIES:
  "getCategoryFromTags tags \<in> set (map fst CATEGORIES)"
  unfolding getCategoryFromTags_def CATEGORIES_def by (simp split: option.split)

lemma color_lookup_key:
  assumes "c \<in> set (map fst CATEGORIES)"
  shows "\<exists>d. map_of CATEGORIES c = Some d \<and> color_lookup c = (c_color d, False)"
  using assms unfolding color_lookup_def CATEGORIES_def by auto

lemma detect_loop_find:
  "detect_loop fs i =
     (case find (\<lambda>f. classification f \<noteq> ''poi'') (drop i (take 10 fs)) of
        None \<Rightarrow> ''poi'' | Some f \<Rightarrow> classification f)"
proof (induction fs i rule: detect_loop.induct)
  case (1 features i)
  show ?case
  proof (cases "i < min (length features) 10")
    case True
    then have d: "drop i (take 10 features) = features ! i # drop (Suc i) (take 10 features)"
      by (simp add: Cons_nth_drop_Suc[symmetric])
    show ?thesis
      using True 1[OF True refl]
      by (subst detect_loop.simps) (auto simp: d Let_def)
  next
    case False
    then show ?thesis by (subst detect_loop.simps) auto
  qed
qed

lemma detectedCategory_find:
  "detectedCategory fs =
     (case find (\<lambda>f. classification f \<noteq> ''poi'') (take 10 fs) of
        None \<Rightarrow> ''poi'' | Some f \<Rightarrow> classification f)"
  by (simp add: detectedCategory_def detect_loop_find)

lemma detectedCategory_in_CATEGORIES:
  "detectedCategory fs \<in> set (map fst CATEGORIES)"
proof (cases "find (\<lambda>f. classification f \<noteq> ''poi'') (take 10 fs)")
  case None
  then have "detectedCategory fs = getCategoryFromTags None"
    by (simp add: detectedCategory_find getCategoryFromTags_def)
  then show ?thesis by (simp only: getCategoryFromTags_in_CATEGORIES)
next
  case (Some f)
  then have "detectedCategory fs = classification f"
    by (simp add: detectedCategory_find)
  then show ?thesis by (simp only: getCategoryFromTags_in_CATEGORIES)
qed

text \<open>
  Claim C10. Whatever the tag classifier is given (no mapping, the empty mapping, any
  mapping), its result is a key of \<open>CATEGORIES\<close>. So the colour lookup of the rendering,
  made on the detected category, finds an entry with a colour, and the right operand of its
  \<open>||\<close> is never evaluated.
\<close>

theorem classifier_result_is_category_key:
  "(\<exists>d. map_of CATEGORIES (getCategoryFromTags tags) = Some d
        \<and> color_lookup (getCategoryFromTags tags) = (c_color d, False))
   \<and> (\<exists>d. map_of CATEGORIES (detectedCategory features) = Some d
        \<and> color_lookup (detectedCategory features) = (c_color d, False))"
  using color_lookup_key[OF getCategoryFromTags_in_CATEGORIES]
        color_lookup_key[OF detectedCategory_in_CATEGORIES]
  by blast

section \<open>Double arithmetic\<close>

lemma pow2_pos: "0 < pow2 e"
  by (simp add: pow2_def)

lemma pow2_Suc: "pow2 (e + 1) = 2 * pow2 e"
proof (cases "0 \<le> e")
  case True
  then have "nat (e + 1) = Suc (nat e)" by simp
  with True show ?thesis by (simp add: pow2_def)
next
  case False
  then have "nat (- e) = Suc (nat (- (e + 1)))" by simp
  with False show ?thesis by (cases "e + 1 = 0") (auto simp: pow2_def)
qed

lemma pow2_pred: "pow2 (e - 1) = pow2 e / 2"
  using pow2_Suc[of "e - 1"] by simp

lemma ilog2_up_spec: "1 \<le> q \<Longrightarrow> pow2 (ilog2_up q) \<le> q \<and> q < pow2 (ilog2_up q + 1)"
proof (induction q rule: ilog2_up.induct)
  case (1 q)
  show ?case
  proof (cases "q < 2")
    case True
    then have "ilog2_up q = 0" by (subst ilog2_up.simps) simp
    with True 1(2) show ?thesis by (simp add: pow2_def)
  next
    case False
    then have s: "ilog2_up q = ilog2_up (q / 2) + 1" by (subst ilog2_up.simps) simp
    let ?k = "ilog2_up (q / 2)"
    from False have "1 \<le> q / 2" by simp
    from 1(1)[OF False this] have i: "pow2 ?k \<le> q / 2" "q / 2 < pow2 (?k + 1)" by simp_all
    have a: "pow2 (?k + 1) = 2 * pow2 ?k" by (rule pow2_Suc)
    have b: "pow2 (?k + 1 + 1) = 2 * pow2 (?k + 1)" by (rule pow2_Suc)
    from i show ?thesis unfolding s b unfolding a by simp
  qed
qed

lemma ilog2_down_spec:
  "0 < q \<Longrightarrow> q < 1 \<Longrightarrow> pow2 (ilog2_down q) \<le> q \<and> q < pow2 (ilog2_down q + 1)"
proof (induction q rule: ilog2_down.induct)
  case (1 q)
  have n: "\<not> (q \<le> 0 \<or> 1 \<le> q)" using 1(2,3) by simp
  have s: "ilog2_down q = ilog2_down (2 * q) - 1" using n by (subst ilog2_down.simps) simp
  show ?case
  proof (cases "2 * q < 1")
    case True
    let ?k = "ilog2_down (2 * q)"
    from 1(2) have "0 < 2 * q" by simp
    from 1(1)[OF n this True] have i: "pow2 ?k \<le> 2 * q" "2 * q < pow2 (?k + 1)" by simp_all
    have a: "pow2 (?k - 1) = pow2 ?k / 2" by (rule pow2_pred)
    have b: "pow2 (?k + 1) = 2 * pow2 ?k" by (rule pow2_Suc)
    have c: "?k - 1 + 1 = ?k" by simp
    from i show ?thesis unfolding s c unfolding a b by simp
  next
    case False
    then have "ilog2_down (2 * q) = 0" by (subst ilog2_down.simps) simp
    with False 1(3) show ?thesis unfolding s by (simp add: pow2_def)
  qed
qed

lemma ilog2_spec: "0 < q \<Longrightarrow> pow2 (ilog2 q) \<le> q \<and> q < pow2 (ilog2 q + 1)"
  using ilog2_up_spec[of q] ilog2_down_spec[of q] by (auto simp: ilog2_def)

lemma pow2_mono: "a \<le> b \<Longrightarrow> pow2 a \<le> pow2 b"
proof -
  assume "a \<le> b"
  then obtain k where b: "b = a + int k" by (metis zle_iff_zadd)
  have "pow2 a \<le> pow2 (a + int k)"
  proof (induction k)
    case 0 show ?case by simp
  next
    case (Suc k)
    have "a + int (Suc k) = a + int k + 1" by simp
    then have "pow2 (a + int (Suc k)) = 2 * pow2 (a + int k)"
      by (simp only: pow2_Suc)
    with Suc pow2_pos[of "a + int k"] show ?case by simp
  qed
  with b show ?thesis by simp
qed

text \<open>The binary exponent is the only one between whose powers the number lies.\<close>

lemma ilog2_eqI:
  assumes "pow2 b \<le> q" and "q < pow2 (b + 1)"
  shows "ilog2 q = b"
proof -
  from assms(1) pow2_pos[of b] have q: "0 < q" by simp
  note s = ilog2_spec[OF q]
  show ?thesis
  proof (rule ccontr)
    assume ne: "ilog2 q \<noteq> b"
    show False
    proof (cases "ilog2 q < b")
      case True
      then have "pow2 (ilog2 q + 1) \<le> pow2 b" by (intro pow2_mono) simp
      with s assms show False by simp
    next
      case False
      with ne have "pow2 (b + 1) \<le> pow2 (ilog2 q)" by (intro pow2_mono) simp
      with s assms show False by simp
    qed
  qed
qed

lemma round_double_eval:
  assumes "pow2 b \<le> \<bar>q\<bar>" and "\<bar>q\<bar> < pow2 (b + 1)"
  shows "round_double q =
       (let e = max (b - 52) (- 1074);
            m = round_half_even (\<bar>q\<bar> / pow2 e);
            v = of_int m * pow2 e
        in if v \<ge> pow2 1024 then (if q > 0 then PInf else NInf)
           else Fin (if q > 0 then v else - v))"
proof -
  from assms(1) pow2_pos[of b] have "q \<noteq> 0" by auto
  then show ?thesis by (simp add: round_double_def ilog2_eqI[OF assms])
qed

lemma round_double_not_NaN: "round_double q \<noteq> NaN"
  by (simp add: round_double_def Let_def)

lemma fadd_Fin_not_NaN: "x \<noteq> NaN \<Longrightarrow> fadd x (Fin b) \<noteq> NaN"
  by (cases x) (simp_all add: round_double_not_NaN)

lemma fdiv_not_NaN: "x \<noteq> NaN \<Longrightarrow> 0 < n \<Longrightarrow> fdiv x n \<noteq> NaN"
  by (cases x) (simp_all add: round_double_not_NaN)

lemma round_double_1: "round_double 1 = Fin 1"
  by (subst round_double_eval[where b = 0]) (simp_all add: pow2_def round_half_even_def Let_def)

lemma round_double_2: "round_double 2 = Fin 2"
  by (subst round_double_eval[where b = 1]) (simp_all add: pow2_def round_half_even_def Let_def)

lemma round_double_4: "round_double 4 = Fin 4"
  by (subst round_double_eval[where b = 2]) (simp_all add: pow2_def round_half_even_def Let_def)

section \<open>The geometry resolver\<close>

lemma sum_ring_foldl:
  "sum_ring coords (a, b) =
     (foldl fadd a (map (round_double \<circ> fst) coords), foldl fadd b (map (round_double \<circ> snd) coords))"
  by (induction coords arbitrary: a b) auto

lemma ring_average_foldl:
  "ring_average coords =
     (fdiv (foldl fadd (Fin 0) (map (round_double \<circ> fst) coords)) (length coords),
      fdiv (foldl fadd (Fin 0) (map (round_double \<circ> snd) coords)) (length coords))"
  by (simp add: ring_average_def sum_ring_foldl)

lemma ring_average_Nil: "ring_average [] = (NaN, NaN)"
  by (simp add: ring_average_def)

lemma no_nan_round_double [simp]: "no_nan (round_double x, round_double y)"
  by (simp add: no_nan_def round_double_not_NaN)

lemma no_nan_Fin [simp]: "no_nan (Fin x, Fin y)"
  by (simp add: no_nan_def)

lemma foldl_fadd_exact:
  "exact_sums a xs \<Longrightarrow> foldl fadd (Fin a) (map round_double xs) = Fin (a + sum_list xs)"
  by (induction xs arbitrary: a) (simp_all add: is_double_def add.assoc)

lemma fdiv_exact: "0 < n \<Longrightarrow> is_double (a / real n) \<Longrightarrow> fdiv (Fin a) n = Fin (a / real n)"
  by (simp add: is_double_def)

lemma ring_average_exact:
  assumes "coords \<noteq> []"
    and "exact_sums 0 (map fst coords)" and "is_double (sum_list (map fst coords) / real (length coords))"
    and "exact_sums 0 (map snd coords)" and "is_double (sum_list (map snd coords) / real (length coords))"
  shows "ring_average coords =
     (Fin (sum_list (map fst coords) / real (length coords)),
      Fin (sum_list (map snd coords) / real (length coords)))"
proof -
  from assms(1) have n: "0 < length coords" by simp
  have a: "foldl fadd (Fin 0) (map (round_double \<circ> fst) coords) = Fin (sum_list (map fst coords))"
    using foldl_fadd_exact[OF assms(2)] by (simp add: comp_def)
  have b: "foldl fadd (Fin 0) (map (round_double \<circ> snd) coords) = Fin (sum_list (map snd coords))"
    using foldl_fadd_exact[OF assms(4)] by (simp add: comp_def)
  show ?thesis
    unfolding ring_average_foldl a b
    by (simp only: fdiv_exact[OF n assms(3)] fdiv_exact[OF n assms(5)])
qed

lemma is_double_0: "is_double 0"
  by (simp add: is_double_def round_double_def)

lemma is_double_1: "is_double 1"
  by (simp add: is_double_def round_double_1)

lemma is_double_2: "is_double 2"
  by (simp add: is_double_def round_double_2)

lemma is_double_4: "is_double 4"
  by (simp add: is_double_def round_double_4)

lemma square_average: "ring_average [(0, 0), (0, 2), (2, 2), (2, 0)] = (Fin 1, Fin 1)"
  using ring_average_exact[of "[(0, 0), (0, 2), (2, 2), (2, 0)]"]
  by (simp add: is_double_0 is_double_1 is_double_2 is_double_4)

text \<open>
  Claim C6, as amended. For a Point the resolver returns the point's coordinate (the
  doubles it is held as). For a Polygon whose outer ring is not empty it returns the vertex
  average as double arithmetic computes it: the longitudes of the outer ring's vertices
  added one after the other to 0, every sum rounded to a double, and the last sum divided
  by the number of vertices and rounded; the latitudes likewise; the holes are not read.
  When no step rounds (every coordinate, every running sum and the quotient are doubles),
  this is the arithmetic mean of the longitudes and of the latitudes. For a MultiPolygon it
  returns what it returns for the first polygon alone. For any other type of geometry it
  returns null.
\<close>

theorem getCentroid_vertex_average:
  "getCentroid (Point (lng, lat)) = Inr (Some (round_double lng, round_double lat))
   \<and> (is_double lng \<and> is_double lat \<longrightarrow> getCentroid (Point (lng, lat)) = Inr (Some (Fin lng, Fin lat)))
   \<and> (coords \<noteq> [] \<longrightarrow>
        getCentroid (Polygon (coords # holes)) =
          Inr (Some (fdiv (foldl fadd (Fin 0) (map (round_double \<circ> fst) coords)) (length coords),
                     fdiv (foldl fadd (Fin 0) (map (round_double \<circ> snd) coords)) (length coords))))
   \<and> (coords \<noteq> []
        \<and> exact_sums 0 (map fst coords)
        \<and> is_double (sum_list (map fst coords) / real (length coords))
        \<and> exact_sums 0 (map snd coords)
        \<and> is_double (sum_list (map snd coords) / real (length coords)) \<longrightarrow>
        getCentroid (Polygon (coords # holes)) =
          Inr (Some (Fin (sum_list (map fst coords) / real (length coords)),
                     Fin (sum_list (map snd coords) / real (length coords)))))
   \<and> getCentroid (MultiPolygon ((coords # holes) # polygons)) = getCentroid (Polygon (coords # holes))
   \<and> getCentroid (OtherGeometry ty) = Inr None"
  using ring_average_exact[of coords]
  by (simp add: ring_average_foldl is_double_def)

lemma is_double_2_125: "is_double (17 / 8)"
  unfolding is_double_def
  by (subst round_double_eval[where b = 1]) (simp_all add: pow2_def round_half_even_def Let_def)

lemma is_double_41_375: "is_double (331 / 8)"
  unfolding is_double_def
  by (subst round_double_eval[where b = 5]) (simp_all add: pow2_def round_half_even_def Let_def)

theorem getCentroid_vertex_average_witness:
  "is_double 2.125 \<and> is_double 41.375
   \<and> getCentroid (Point (2.125, 41.375)) = Inr (Some (Fin 2.125, Fin 41.375))
   \<and> [(0, 0), (0, 2), (2, 2), (2, 0)] \<noteq> ([] :: position list)
   \<and> exact_sums 0 (map fst [(0, 0), (0, 2), (2, 2), (2, 0 :: real)])
   \<and> is_double (sum_list (map fst [(0, 0), (0, 2), (2, 2), (2, 0 :: real)]) / 4)
   \<and> exact_sums 0 (map snd [(0, 0), (0, 2), (2, 2), (2 :: real, 0)])
   \<and> is_double (sum_list (map snd [(0, 0), (0, 2), (2, 2), (2 :: real, 0)]) / 4)
   \<and> getCentroid (Polygon [[(0, 0), (0, 2), (2, 2), (2, 0)], [(1, 1), (1, 1.5), (1.5, 1)]])
        = Inr (Some (Fin 1, Fin 1))
   \<and> getCentroid (MultiPolygon [[[(0, 0), (0, 2), (2, 2), (2, 0)], [(1, 1), (1, 1.5), (1.5, 1)]],
                                 [[(5, 5), (5, 6), (6, 6)]]])
        = Inr (Some (Fin 1, Fin 1))
   \<and> getCentroid (OtherGeometry ''LineString'') = Inr None"
proof -
  have e: "exact_sums 0 (map fst [(0, 0), (0, 2), (2, 2), (2, 0 :: real)])"
    "is_double (sum_list (map fst [(0, 0), (0, 2), (2, 2), (2, 0 :: real)]) / 4)"
    "exact_sums 0 (map snd [(0, 0), (0, 2), (2, 2), (2 :: real, 0)])"
    "is_double (sum_list (map snd [(0, 0), (0, 2), (2, 2), (2 :: real, 0)]) / 4)"
    by (simp_all add: is_double_0 is_double_1 is_double_2 is_double_4)
  from getCentroid_vertex_average
          [of "2.125" "41.375" "[(0, 0), (0, 2), (2, 2), (2, 0)]" "[[(1, 1), (1, 1.5), (1.5, 1)]]"
              "[[[(5, 5), (5, 6), (6, 6)]]]" "''LineString''"]
  show ?thesis
    using e is_double_2_125 is_double_41_375
    by (simp add: is_double_0[unfolded is_double_def] round_double_1 round_double_2 round_double_4)
qed

text \<open>
  Claim C6 as stated fails: what the resolver returns for a Polygon is not the arithmetic
  mean. The outer ring has the longitudes 0.1, 0.2 and 0.3, whose mean is 0.2; the
  resolver returns 7205759403792795 / 2^55 (0.20000000000000004), which is neither 0.2 nor
  the double nearest to 0.2, and not the mean of the three doubles it has added either.
\<close>

theorem vertex_average_is_rounded_counterexample:
  "getCentroid (Polygon [tenths_ring]) = Inr (Some (Fin (7205759403792795 / 2 ^ 55), Fin 0))
   \<and> sum_list (map fst tenths_ring) / 3 = 0.2
   \<and> round_double 0.2 = Fin double_0_2
   \<and> double_0_2 \<noteq> 7205759403792795 / 2 ^ 55
   \<and> 0.2 \<noteq> (7205759403792795 / 2 ^ 55 :: real)
   \<and> (double_0_1 + double_0_2 + double_0_3) / 3 \<noteq> 7205759403792795 / 2 ^ 55"
proof -
  have z: "round_double 0 = Fin 0" by (simp add: round_double_def)
  have r1: "round_double (1 / 10) = Fin double_0_1"
    unfolding double_0_1_def
    by (subst round_double_eval[where b = "- 4"]) (simp_all add: pow2_def round_half_even_def Let_def)
  have r2: "round_double (1 / 5) = Fin double_0_2"
    unfolding double_0_2_def
    by (subst round_double_eval[where b = "- 3"]) (simp_all add: pow2_def round_half_even_def Let_def)
  have r3: "round_double (3 / 10) = Fin double_0_3"
    unfolding double_0_3_def
    by (subst round_double_eval[where b = "- 2"]) (simp_all add: pow2_def round_half_even_def Let_def)
  have s1: "round_double double_0_1 = Fin double_0_1"
    unfolding double_0_1_def
    by (subst round_double_eval[where b = "- 4"]) (simp_all add: pow2_def round_half_even_def Let_def)
  define a :: real where "a = 1351079888211149 / 2 ^ 52"
  define b :: real where "b = 1351079888211149 / 2 ^ 51"
  define r :: real where "r = 7205759403792795 / 2 ^ 55"
  have s2: "round_double (double_0_1 + double_0_2) = Fin a"
    unfolding double_0_1_def double_0_2_def a_def
    by (subst round_double_eval[where b = "- 2"]) (simp_all add: pow2_def round_half_even_def Let_def)
  have s3: "round_double (a + double_0_3) = Fin b"
    unfolding double_0_3_def a_def b_def
    by (subst round_double_eval[where b = "- 1"]) (simp_all add: pow2_def round_half_even_def Let_def)
  have q: "round_double (b / 3) = Fin r"
    unfolding b_def r_def
    by (subst round_double_eval[where b = "- 3"]) (simp_all add: pow2_def round_half_even_def Let_def)
  have "getCentroid (Polygon [tenths_ring]) = Inr (Some (Fin r, Fin 0))"
    by (simp add: tenths_ring_def ring_average_def z r1 r2 r3 s1 s2 s3 q)
  then have c: "getCentroid (Polygon [tenths_ring]) = Inr (Some (Fin (7205759403792795 / 2 ^ 55), Fin 0))"
    by (simp only: r_def)
  have m: "sum_list (map fst tenths_ring) / 3 = 0.2"
    by (simp add: tenths_ring_def)
  have n: "round_double 0.2 = Fin double_0_2"
    using r2 by simp
  have d: "double_0_2 \<noteq> 7205759403792795 / 2 ^ 55"
    by (simp add: double_0_2_def)
  have e: "0.2 \<noteq> (7205759403792795 / 2 ^ 55 :: real)"
    by simp
  have f: "(double_0_1 + double_0_2 + double_0_3) / 3 \<noteq> 7205759403792795 / 2 ^ 55"
    by (simp add: double_0_1_def double_0_2_def double_0_3_def)
  from c m n d e f show ?thesis by blast
qed

section \<open>The decimal text of a timestamp determines it\<close>

lemma digit_char_inj: "a < 10 \<Longrightarrow> b < 10 \<Longrightarrow> digit_char a = digit_char b \<Longrightarrow> a = b"
proof -
  assume a: "a < 10" and b: "b < 10" and e: "digit_char a = digit_char b"
  from a have "a \<in> {0,1,2,3,4,5,6,7,8,9}" by auto
  moreover from b have "b \<in> {0,1,2,3,4,5,6,7,8,9}" by auto
  ultimately show ?thesis using e by (auto simp: digit_char_def)
qed

lemma show_nat_nonempty [simp]: "show_nat n \<noteq> []" "[] \<noteq> show_nat n"
  by (subst show_nat.simps, simp)+

lemma show_nat_small: "n < 10 \<Longrightarrow> show_nat n = [digit_char n]"
  by (subst show_nat.simps) simp

lemma show_nat_big: "\<not> n < 10 \<Longrightarrow> show_nat n = show_nat (n div 10) @ [digit_char (n mod 10)]"
  by (subst show_nat.simps) simp

lemma show_nat_inj: "show_nat n = show_nat m \<Longrightarrow> n = m"
proof (induction n arbitrary: m rule: show_nat.induct)
  case (1 n)
  show ?case
  proof (cases "n < 10")
    case True
    show ?thesis
    proof (cases "m < 10")
      case mT: True
      with True 1(2) show ?thesis by (simp add: show_nat_small digit_char_inj)
    next
      case mF: False
      with True 1(2) show ?thesis by (simp add: show_nat_small show_nat_big)
    qed
  next
    case False
    show ?thesis
    proof (cases "m < 10")
      case mT: True
      with False 1(2) show ?thesis by (simp add: show_nat_small show_nat_big)
    next
      case mF: False
      with False 1(2) have e: "show_nat (n div 10) = show_nat (m div 10)" and d: "digit_char (n mod 10) = digit_char (m mod 10)"
        by (simp_all add: show_nat_big)
      from 1(1)[OF False e] have "n div 10 = m div 10" .
      moreover from d have "n mod 10 = m mod 10" by (auto intro: digit_char_inj)
      ultimately show ?thesis by (metis div_mult_mod_eq)
    qed
  qed
qed

lemma digit_char_not_minus: "d < 10 \<Longrightarrow> digit_char d \<noteq> CHR ''-''"
proof -
  assume "d < 10"
  then have "d \<in> {0,1,2,3,4,5,6,7,8,9}" by auto
  then show ?thesis by (auto simp: digit_char_def)
qed

lemma show_nat_hd: "hd (show_nat n) \<noteq> CHR ''-''"
proof (induction n rule: show_nat.induct)
  case (1 n)
  show ?case
  proof (cases "n < 10")
    case True then show ?thesis by (simp add: show_nat_small digit_char_not_minus)
  next
    case False
    with 1 show ?thesis by (simp add: show_nat_big show_nat_nonempty)
  qed
qed

lemma show_int_inj: "show_int a = show_int b \<Longrightarrow> a = b"
  using show_nat_hd[of "nat a"] show_nat_hd[of "nat b"] show_nat_nonempty(1)[of "nat a"] show_nat_nonempty(1)[of "nat b"]
  by (auto simp: show_int_def split: if_splits dest!: show_nat_inj) (metis list.sel(1))+

section \<open>The marker loop\<close>

lemma map_entry_twice:
  "AList.map_entry k f (AList.map_entry k g xs) = AList.map_entry k (f \<circ> g) xs"
  by (induction xs) auto

lemma push_marker_layers:
  "layers (push_marker lid m st) = AList.map_entry lid (\<lambda>l. l\<lparr>l_markers := l_markers l @ [m]\<rparr>) (layers st)"
  by (simp add: push_marker_def)

lemma map_entry_id: "AList.map_entry k (\<lambda>l. l) xs = xs"
  by (induction xs) auto

lemma add_markers_Nil: "add_markers lid [] st = st"
  by (simp add: add_markers_def map_entry_id)

lemma add_markers_push: "add_markers lid ms (push_marker lid m st) = add_markers lid (m # ms) st"
  by (simp add: add_markers_def push_marker_def map_entry_twice comp_def)

lemma create_markers_ok:
  "list_all (well_shaped accepts) fs \<Longrightarrow>
   create_markers accepts lid fs (st, p, s) =
     Inr (add_markers lid (markers_of fs) st,
          p + length (filter placeable fs), s + length (filter (\<lambda>f. \<not> placeable f) fs))"
proof (induction fs arbitrary: st p s)
  case Nil
  then show ?case by (simp add: markers_of_def add_markers_Nil)
next
  case (Cons f fs)
  then have ws: "well_shaped accepts f" and rest: "list_all (well_shaped accepts) fs" by simp_all
  note IH = Cons.IH[OF rest]
  show ?case
  proof (cases "f_geometry f")
    case None
    then show ?thesis using IH by (simp add: markers_of_def placeable_def)
  next
    case (Some g)
    show ?thesis
    proof (cases "getCentroid g")
      case (Inl e)
      with ws Some show ?thesis by (simp add: well_shaped_def)
    next
      case (Inr r)
      show ?thesis
      proof (cases r)
        case None
        with Inr Some have "\<not> placeable f"
          by (cases g rule: getCentroid.cases) (auto simp: placeable_def)
        with None Inr Some IH show ?thesis by (simp add: markers_of_def)
      next
        case (Some c)
        with Inr \<open>f_geometry f = Some g\<close> have "placeable f"
          by (cases g rule: getCentroid.cases) (auto simp: placeable_def)
        moreover from ws Some Inr \<open>f_geometry f = Some g\<close> have "accepts c"
          by (simp add: well_shaped_def)
        ultimately show ?thesis
          using Some Inr \<open>f_geometry f = Some g\<close> IH
            add_markers_push[of lid "markers_of fs" _ st]
          by (simp add: markers_of_def)
      qed
    qed
  qed
qed


lemma update_fresh: "map_of xs k = None \<Longrightarrow> AList.update k v xs = xs @ [(k, v)]"
  by (induction xs) (auto split: if_splits)

lemma map_entry_fresh: "map_of xs k = None \<Longrightarrow> AList.map_entry k f (xs @ [(k, v)]) = xs @ [(k, f v)]"
  by (induction xs) (auto split: if_splits)

lemma renderData_ok:
  assumes ne: "features \<noteq> []" and ws: "list_all (well_shaped accepts) features"
    and fresh: "map_of (layers st) (make_layerId (detectedCategory features) place now) = None"
  shows "renderData accepts st (Some features) place now =
    (None, updateLegend (st\<lparr>layers := layers st @
        [(make_layerId (detectedCategory features) place now,
          \<lparr>l_markers = markers_of features,
           l_name = make_layerName (detectedCategory features) place,
           l_category = detectedCategory features,
           l_color = fst (color_lookup (detectedCategory features))\<rparr>)],
       console := console st @ [Rendered (length (filter placeable features))
                                         (length (filter (\<lambda>f. \<not> placeable f) features))]\<rparr>))"
  using ne
  by (simp add: renderData_def Let_def create_markers_ok[OF ws] add_markers_def
        update_fresh[OF fresh] map_entry_fresh[OF fresh])

lemma length_markers_of: "list_all (well_shaped accepts) fs \<Longrightarrow> length (markers_of fs) = length (filter placeable fs)"
proof (induction fs)
  case Nil then show ?case by (simp add: markers_of_def)
next
  case (Cons f fs)
  then have IH: "length (markers_of fs) = length (filter placeable fs)" by simp
  have m: "markers_of (f # fs) = markers_of [f] @ markers_of fs" by (simp add: markers_of_def)
  from Cons.prems have ws: "well_shaped accepts f" by simp
  have "length (markers_of [f]) = (if placeable f then 1 else 0)"
  proof (cases "f_geometry f")
    case None then show ?thesis by (simp add: markers_of_def placeable_def)
  next
    case (Some g)
    with ws show ?thesis
      by (cases g rule: getCentroid.cases) (auto simp: markers_of_def placeable_def well_shaped_def)
  qed
  with m IH show ?case by simp
qed

section \<open>The legend after an update\<close>

lemma count_layers_val:
  "count_val (count_layers ls m) c =
     count_val m c + sum_list (map (\<lambda>l. length (l_markers l)) (filter (\<lambda>l. l_category l = c) ls))"
  by (induction ls arbitrary: m) (auto split: option.splits)

lemma countsByCategory_snd:
  "countsByCategory ls c = sum_list (map (\<lambda>l. length (l_markers l)) (filter (\<lambda>l. l_category l = c) (map snd ls)))"
  unfolding countsByCategory_def by (induction ls) auto

lemma count_layers_countsByCategory:
  "count_val (count_layers (map snd ls) Map.empty) c = countsByCategory ls c"
  by (simp add: count_layers_val countsByCategory_snd)

lemma initLegend_categories:
  "map li_category (legend (initLegend st)) = filter (\<lambda>k. k \<noteq> ''poi'') (map fst CATEGORIES)"
  unfolding initLegend_def CATEGORIES_def by simp

lemma li_category_update_item: "li_category (update_item cc item) = li_category item"
  by (simp add: update_item_def Let_def)

lemma update_item_ok:
  "li_count (update_item cc item) = count_val cc (li_category item)
   \<and> li_active (update_item cc item) = (count_val cc (li_category item) > 0)
   \<and> li_remove_shown (update_item cc item) = (count_val cc (li_category item) > 0)"
  by (simp add: update_item_def Let_def)

lemma legend_synced_updateLegend:
  assumes "map li_category (legend st) = map li_category (legend (initLegend st))"
  shows "legend_synced (updateLegend st)"
proof -
  have l: "layers (updateLegend st) = layers st" by (simp add: updateLegend_def Let_def)
  have g: "legend (updateLegend st) = map (update_item (count_layers (map snd (layers st)) Map.empty)) (legend st)"
    by (simp add: updateLegend_def Let_def)
  have c: "map li_category (legend (updateLegend st)) = filter (\<lambda>k. k \<noteq> ''poi'') (map fst CATEGORIES)"
    using assms by (simp add: g li_category_update_item comp_def initLegend_categories)
  have a: "list_all (\<lambda>item.
          li_count item = countsByCategory (layers (updateLegend st)) (li_category item)
          \<and> li_active item = (li_count item > 0)
          \<and> li_remove_shown item = (li_count item > 0)) (legend (updateLegend st))"
    unfolding l g list_all_iff
    using update_item_ok count_layers_countsByCategory li_category_update_item by auto
  from c a show ?thesis unfolding legend_synced_def by blast
qed

lemma legend_initLegend_indep: "legend (initLegend st) = legend (initLegend st')"
  by (simp add: initLegend_def)

lemma legend_push_marker: "legend (push_marker lid m st) = legend st"
  by (simp add: push_marker_def)

lemma create_markers_legend:
  "create_markers accepts lid fs (st, p, s) = Inr (st2, p2, s2) \<Longrightarrow> legend st2 = legend st"
  by (induction fs arbitrary: st p s)
     (auto split: option.splits sum.splits if_splits simp: legend_push_marker)

lemma renderData_synced:
  assumes inv: "map li_category (legend st) = map li_category (legend (initLegend st))"
    and r: "renderData accepts st (Some fs) place now = (None, st')" and ne: "fs \<noteq> []"
  shows "legend_synced st'"
proof -
  let ?lid = "make_layerId (detectedCategory fs) place now"
  let ?st1 = "st\<lparr>layers := AList.update ?lid
                       \<lparr>l_markers = [], l_name = make_layerName (detectedCategory fs) place,
                        l_category = detectedCategory fs, l_color = fst (color_lookup (detectedCategory fs))\<rparr>
                       (layers st)\<rparr>"
  from r ne obtain st2 p2 s2 where cm: "create_markers accepts ?lid fs (?st1, 0, 0) = Inr (st2, p2, s2)"
    and st': "st' = updateLegend (st2\<lparr>console := console st2 @ [Rendered p2 s2]\<rparr>)"
    by (auto simp: renderData_def Let_def split: sum.splits prod.splits)
  from create_markers_legend[OF cm] have "legend st2 = legend st" by simp
  then have "map li_category (legend (st2\<lparr>console := console st2 @ [Rendered p2 s2]\<rparr>))
     = map li_category (legend (initLegend (st2\<lparr>console := console st2 @ [Rendered p2 s2]\<rparr>)))"
    using inv legend_initLegend_indep[of st] by (simp add: initLegend_def)
  from legend_synced_updateLegend[OF this] st' show ?thesis by simp
qed

section \<open>One render: the layer, the counts and the completion message\<close>

lemma five_features_well_shaped: "list_all (well_shaped no_nan) five_features"
  by (simp add: five_features_def well_shaped_def cafe_point_def line_feature_def cafe_square_def
        no_geometry_def cafe_point2_def square_average)

lemma five_features_placeable: "filter placeable five_features = [cafe_point, cafe_square, cafe_point2]"
  by (simp add: five_features_def placeable_def cafe_point_def line_feature_def cafe_square_def no_geometry_def cafe_point2_def)

lemma five_features_unplaceable: "filter (\<lambda>f. \<not> placeable f) five_features = [line_feature, no_geometry]"
  by (simp add: five_features_def placeable_def cafe_point_def line_feature_def cafe_square_def no_geometry_def cafe_point2_def)

lemma show_int_example: "show_int 1700000000000 = ''1700000000000''"
  by (simp add: show_int_def show_nat.simps digit_char_def)

lemma initial_state_fields:
  "layers initial_state = []" "chat initial_state = []" "console initial_state = []"
  by (simp_all add: initial_state_def initLegend_def)

lemma updateLegend_fields:
  "chat (updateLegend st) = chat st" "console (updateLegend st) = console st"
  "layers (updateLegend st) = layers st"
  by (simp_all add: updateLegend_def Let_def)

text \<open>
  Claim C1, as amended. Take a non-empty sequence of elements on which nothing throws:
  every Polygon and MultiPolygon has an outer ring that is not empty, and the map library
  accepts every centroid; and a store that does not hold the new layer's identifier yet.
  Then \<open>renderData\<close> adds exactly one layer; its markers are one for each placeable element
  (Point, Polygon or MultiPolygon); the console line counts the placeable elements as
  rendered and the others as skipped; and the completion message of the send handler
  states the total number of elements.
\<close>

theorem renderData_places_and_reports_total:
  assumes "features \<noteq> []" and "list_all (well_shaped accepts) features"
    and "map_of (layers st) (make_layerId (detectedCategory features) (Some placeName) now) = None"
  shows "\<exists>l st'. renderData accepts st (Some features) (Some placeName) now = (None, st')
      \<and> layers st' = layers st @ [(make_layerId (detectedCategory features) (Some placeName) now, l)]
      \<and> l_markers l = markers_of features
      \<and> length (l_markers l) = length (filter placeable features)
      \<and> console st' = console st @ [Rendered (length (filter placeable features))
                                              (length (filter (\<lambda>f. \<not> placeable f) features))]
      \<and> chat (send_onclick accepts st (Some features) placeName now)
           = chat st @ [(''Agent'', FoundResults (length features))]"
  using assms(1)
  by (simp add: renderData_ok[OF assms] send_onclick_def addMessage_def updateLegend_fields
        length_markers_of[OF assms(2)])

theorem renderData_places_and_reports_total_witness:
  "five_features \<noteq> [] \<and> list_all (well_shaped no_nan) five_features
   \<and> map_of (layers initial_state)
        (make_layerId (detectedCategory five_features) (Some ''Madrid'') 1700000000000) = None
   \<and> length (filter placeable five_features) = 3
   \<and> length (filter (\<lambda>f. \<not> placeable f) five_features) = 2
   \<and> console (snd (renderData no_nan initial_state (Some five_features) (Some ''Madrid'') 1700000000000))
        = [Rendered 3 2]
   \<and> chat (send_onclick no_nan initial_state (Some five_features) ''Madrid'' 1700000000000)
        = [(''Agent'', FoundResults 5)]"
proof -
  have ne: "five_features \<noteq> []" by (simp add: five_features_def)
  have fresh: "map_of (layers initial_state)
        (make_layerId (detectedCategory five_features) (Some ''Madrid'') 1700000000000) = None"
    by (simp add: initial_state_fields)
  have l: "length five_features = 5" by (simp add: five_features_def)
  from renderData_places_and_reports_total[OF ne five_features_well_shaped fresh]
  show ?thesis
    using ne fresh five_features_well_shaped l
    by (auto simp: five_features_placeable five_features_unplaceable initial_state_fields)
qed

text \<open>
  Claim C1 as stated fails: of five elements, three are placeable and two are not, and the
  completion message says 5, not 3.
\<close>

theorem report_is_total_count_counterexample:
  "length (filter placeable five_features) = 3
   \<and> chat (send_onclick no_nan initial_state (Some five_features) ''Madrid'' 1700000000000)
        = [(''Agent'', FoundResults 5)]
   \<and> chat (send_onclick no_nan initial_state (Some five_features) ''Madrid'' 1700000000000)
        \<noteq> [(''Agent'', FoundResults (length (filter placeable five_features)))]"
proof -
  have ne: "five_features \<noteq> []" by (simp add: five_features_def)
  have fresh: "map_of (layers initial_state)
        (make_layerId (detectedCategory five_features) (Some ''Madrid'') 1700000000000) = None"
    by (simp add: initial_state_fields)
  have l: "length five_features = 5" by (simp add: five_features_def)
  show ?thesis
    by (simp add: send_onclick_def renderData_ok[OF ne five_features_well_shaped fresh]
          addMessage_def updateLegend_fields initial_state_fields five_features_placeable
          five_features_unplaceable l)
qed

section \<open>The category of the layer\<close>






lemma classify_plain: "classification plain_point = ''poi''"
  by (simp add: plain_point_def feature_tags_def getCategoryFromTags_def)
lemma classify_cafe: "classification cafe_point = ''cafe''"
  by (simp add: cafe_point_def feature_tags_def getCategoryFromTags_def)
lemma classify_line: "classification line_feature = ''poi''"
  by (simp add: line_feature_def feature_tags_def getCategoryFromTags_def)


section \<open>An element whose outer ring is empty\<close>

text \<open>
  Claim C4 fails on the code. For a Polygon whose outer ring is empty \<open>getCentroid\<close> returns
  (NaN, NaN), an array, which \<open>if (!coords)\<close> lets through: the element is not skipped but
  goes on to marker creation. With a map library that does not accept that position, the
  render stops there: the error leaves \<open>renderData\<close>, the new layer stays in the store with
  the markers made so far (none when the element comes first), the elements after it get
  no marker, there is no console line and no legend update, and the handler reports the
  error instead of a count. A Polygon with no ring at all makes \<open>getCentroid\<close> itself throw,
  to the same effect.
\<close>

theorem empty_outer_ring_aborts_render:
  assumes "\<not> accepts (NaN, NaN)" and "accepts (Fin 2.125, Fin 41.375)"
  shows
  "getCentroid (Polygon [[]]) = Inr (Some (NaN, NaN))
   \<and> fst (renderData accepts initial_state (Some [empty_ring_polygon, cafe_point])
             (Some ''Madrid'') 1700000000000) = Some LngLatError
   \<and> map (l_markers \<circ> snd)
        (layers (snd (renderData accepts initial_state (Some [empty_ring_polygon, cafe_point])
                        (Some ''Madrid'') 1700000000000))) = [[]]
   \<and> console (snd (renderData accepts initial_state (Some [empty_ring_polygon, cafe_point])
                      (Some ''Madrid'') 1700000000000)) = []
   \<and> legend (snd (renderData accepts initial_state (Some [empty_ring_polygon, cafe_point])
                     (Some ''Madrid'') 1700000000000)) = legend initial_state
   \<and> chat (send_onclick accepts initial_state (Some [empty_ring_polygon, cafe_point])
             ''Madrid'' 1700000000000) = [(''Agent'', ErrorMessage LngLatError)]
   \<and> fst (renderData accepts initial_state (Some [cafe_point, no_ring_polygon, cafe_point2])
             (Some ''Madrid'') 1700000000000) = Some TypeError
   \<and> map (map m_lnglat \<circ> l_markers \<circ> snd)
        (layers (snd (renderData accepts initial_state (Some [cafe_point, no_ring_polygon, cafe_point2])
                        (Some ''Madrid'') 1700000000000)))
       = [[(Fin 2.125, Fin 41.375)]]
   \<and> console (snd (renderData accepts initial_state (Some [cafe_point, no_ring_polygon, cafe_point2])
                      (Some ''Madrid'') 1700000000000)) = []"
proof -
  let ?a = "[empty_ring_polygon, cafe_point]"
  have g0: "getCentroid (Polygon [[]]) = Inr (Some (NaN, NaN))"
    by (simp add: ring_average_Nil)
  have ga: "f_geometry empty_ring_polygon = Some (Polygon [[]])"
    by (simp add: empty_ring_polygon_def)
  have ca: "classification empty_ring_polygon = ''poi''"
    by (simp add: empty_ring_polygon_def feature_tags_def getCategoryFromTags_def)
  have da: "detectedCategory ?a = ''cafe''"
    by (simp add: detectedCategory_find ca classify_cafe)
  have i: "make_layerId ''cafe'' (Some ''Madrid'') 1700000000000 = ''cafe_Madrid_1700000000000''"
    by (simp add: make_layerId_def show_int_example)
  have ra: "renderData accepts initial_state (Some ?a) (Some ''Madrid'') 1700000000000 =
     (Some LngLatError,
      initial_state\<lparr>layers := [(''cafe_Madrid_1700000000000'',
            \<lparr>l_markers = [], l_name = make_layerName ''cafe'' (Some ''Madrid''),
             l_category = ''cafe'', l_color = fst (color_lookup ''cafe'')\<rparr>)]\<rparr>)"
    using assms(1)
    by (simp add: renderData_def Let_def da i initial_state_fields ga ring_average_Nil)
  have a1: "fst (renderData accepts initial_state (Some ?a) (Some ''Madrid'') 1700000000000)
      = Some LngLatError"
    by (simp add: ra)
  have a2: "map (l_markers \<circ> snd)
        (layers (snd (renderData accepts initial_state (Some ?a) (Some ''Madrid'') 1700000000000)))
      = [[]]"
    by (simp add: ra)
  have a3: "console (snd (renderData accepts initial_state (Some ?a) (Some ''Madrid'') 1700000000000))
      = []"
    by (simp add: ra initial_state_fields)
  have a4: "legend (snd (renderData accepts initial_state (Some ?a) (Some ''Madrid'') 1700000000000))
      = legend initial_state"
    by (simp add: ra)
  have a5: "chat (send_onclick accepts initial_state (Some ?a) ''Madrid'' 1700000000000)
      = [(''Agent'', ErrorMessage LngLatError)]"
    by (simp add: send_onclick_def ra addMessage_def initial_state_fields)
  let ?b = "[cafe_point, no_ring_polygon, cafe_point2]"
  have db: "detectedCategory ?b = ''cafe''"
    by (simp add: detectedCategory_find classify_cafe)
  have g: "f_geometry cafe_point = Some (Point (2.125, 41.375))"
    "f_geometry no_ring_polygon = Some (Polygon [])"
    by (simp_all add: cafe_point_def no_ring_polygon_def)
  have rb: "renderData accepts initial_state (Some ?b) (Some ''Madrid'') 1700000000000 =
     (Some TypeError, push_marker ''cafe_Madrid_1700000000000''
        \<lparr>m_lnglat = (Fin 2.125, Fin 41.375), m_title = marker_title cafe_point\<rparr>
        (initial_state\<lparr>layers := [(''cafe_Madrid_1700000000000'',
            \<lparr>l_markers = [], l_name = make_layerName ''cafe'' (Some ''Madrid''),
             l_category = ''cafe'', l_color = fst (color_lookup ''cafe'')\<rparr>)]\<rparr>))"
    using assms(2)
    by (simp add: renderData_def Let_def db i initial_state_fields g
          is_double_2_125[unfolded is_double_def] is_double_41_375[unfolded is_double_def])
  have b1: "fst (renderData accepts initial_state (Some ?b) (Some ''Madrid'') 1700000000000)
      = Some TypeError"
    by (simp add: rb)
  have b2: "map (map m_lnglat \<circ> l_markers \<circ> snd)
        (layers (snd (renderData accepts initial_state (Some ?b) (Some ''Madrid'') 1700000000000)))
       = [[(Fin 2.125, Fin 41.375)]]"
    by (simp add: rb push_marker_def)
  have b3: "console (snd (renderData accepts initial_state (Some ?b) (Some ''Madrid'') 1700000000000))
      = []"
    by (simp add: rb push_marker_def initial_state_fields)
  from g0 a1 a2 a3 a4 a5 b1 b2 b3 show ?thesis by blast
qed

theorem empty_outer_ring_aborts_render_witness:
  "\<not> no_nan (NaN, NaN) \<and> no_nan (Fin 2.125, Fin 41.375)
   \<and> fst (renderData no_nan initial_state (Some [empty_ring_polygon, cafe_point])
             (Some ''Madrid'') 1700000000000) = Some LngLatError
   \<and> map (l_markers \<circ> snd)
        (layers (snd (renderData no_nan initial_state (Some [empty_ring_polygon, cafe_point])
                        (Some ''Madrid'') 1700000000000))) = [[]]
   \<and> console (snd (renderData no_nan initial_state (Some [empty_ring_polygon, cafe_point])
                      (Some ''Madrid'') 1700000000000)) = []
   \<and> chat (send_onclick no_nan initial_state (Some [empty_ring_polygon, cafe_point])
             ''Madrid'' 1700000000000) = [(''Agent'', ErrorMessage LngLatError)]"
proof -
  have n: "\<not> no_nan (NaN, NaN)" by (simp add: no_nan_def)
  have f: "no_nan (Fin 2.125, Fin 41.375)" by simp
  from empty_outer_ring_aborts_render[OF n f] n f show ?thesis by blast
qed

section \<open>Layer identifiers\<close>

text \<open>
  Claim C2, as amended. Two layer identifiers made for the same category and the same place
  name are distinct exactly when the two creation timestamps (the millisecond values of
  \<open>Date.now()\<close>) differ.
\<close>

theorem layerId_distinct_iff_timestamp:
  "(make_layerId category place_name t1 = make_layerId category place_name t2) = (t1 = t2)"
  by (auto simp: make_layerId_def dest: show_int_inj)

lemma cafe_point2_facts:
  "f_geometry cafe_point2 = Some (Point (2.25, 41.25))" "classification cafe_point2 = ''cafe''"
  by (simp_all add: cafe_point2_def feature_tags_def getCategoryFromTags_def)

lemma cafe_point_geometry: "f_geometry cafe_point = Some (Point (2.125, 41.375))"
  by (simp add: cafe_point_def)

text \<open>
  Claim C2 as stated fails: two successive renders for the same category and place within
  one millisecond make the same identifier, and the store holds one layer after the
  second render, which has replaced the first.
\<close>

theorem same_millisecond_same_layerId_counterexample:
  "map fst (layers (snd (renderData no_nan initial_state (Some [cafe_point]) (Some ''Madrid'') 1700000000000)))
     = [''cafe_Madrid_1700000000000'']
   \<and> map fst (layers (snd (renderData no_nan
        (snd (renderData no_nan initial_state (Some [cafe_point]) (Some ''Madrid'') 1700000000000))
        (Some [cafe_point2]) (Some ''Madrid'') 1700000000000)))
     = [''cafe_Madrid_1700000000000'']"
proof -
  have d1: "detectedCategory [cafe_point] = ''cafe''" "detectedCategory [cafe_point2] = ''cafe''"
    by (simp_all add: detectedCategory_find classify_cafe cafe_point2_facts)
  have i: "make_layerId ''cafe'' (Some ''Madrid'') 1700000000000 = ''cafe_Madrid_1700000000000''"
    by (simp add: make_layerId_def show_int_example)
  have r1: "layers (snd (renderData no_nan initial_state (Some [cafe_point]) (Some ''Madrid'') 1700000000000))
    = [(''cafe_Madrid_1700000000000'',
        \<lparr>l_markers = [\<lparr>m_lnglat = (round_double 2.125, round_double 41.375), m_title = marker_title cafe_point\<rparr>],
         l_name = make_layerName ''cafe'' (Some ''Madrid''),
         l_category = ''cafe'', l_color = fst (color_lookup ''cafe'')\<rparr>)]"
    by (simp add: renderData_def Let_def d1 i initial_state_fields cafe_point_geometry
          push_marker_def updateLegend_fields)
  have r2: "map fst (layers (snd (renderData no_nan
        (snd (renderData no_nan initial_state (Some [cafe_point]) (Some ''Madrid'') 1700000000000))
        (Some [cafe_point2]) (Some ''Madrid'') 1700000000000)))
     = [''cafe_Madrid_1700000000000'']"
    by (simp add: renderData_def[of no_nan "snd (renderData no_nan initial_state (Some [cafe_point]) (Some ''Madrid'') 1700000000000)"]
          Let_def d1 i r1 cafe_point2_facts push_marker_def updateLegend_fields)
  from r1 r2 show ?thesis by simp
qed

section \<open>The legend after every mutation of the store\<close>

text \<open>
  Claim C5, as amended. Once the legend is built by \<open>initLegend\<close>, after every mutation of
  the store that ends in \<open>updateLegend\<close> (clearing, removing a category, removing a layer
  that exists, a render that completes) the legend has one entry for every category of the
  taxonomy other than \<open>poi\<close>, in order; each entry shows the count derived from the store,
  and it is active with its remove button shown exactly when that count is positive, so a
  category with no marker is there, inactive, with count 0.
\<close>

theorem legend_synced_after_mutation:
  assumes inv: "map li_category (legend st) = map li_category (legend (initLegend st))"
  shows "legend_synced (updateLegend st)
   \<and> legend_synced (clearAllLayers st)
   \<and> legend_synced (removeCategoryLayers category st)
   \<and> (map_of (layers st) layerId \<noteq> None \<longrightarrow> legend_synced (removeLayer layerId st))
   \<and> (fs \<noteq> [] \<and> renderData accepts st (Some fs) place now = (None, st') \<longrightarrow> legend_synced st')"
proof -
  have i: "\<And>ls. map li_category (legend (st\<lparr>layers := ls\<rparr>)) = map li_category (legend (initLegend (st\<lparr>layers := ls\<rparr>)))"
    using inv by (simp add: initLegend_def)
  show ?thesis
    using legend_synced_updateLegend[OF inv] legend_synced_updateLegend[OF i] renderData_synced[OF inv]
    by (auto simp: clearAllLayers_def removeCategoryLayers_def removeLayer_def Let_def)
qed

lemma plain_point_geometry: "f_geometry plain_point = Some (Point (2.5, 41.5))"
  by (simp add: plain_point_def)

lemma render_plain:
  "renderData no_nan initial_state (Some [plain_point]) (Some ''Madrid'') 1700000000000 =
    (None, updateLegend (initial_state\<lparr>layers :=
        [(''poi_Madrid_1700000000000'',
          \<lparr>l_markers = [\<lparr>m_lnglat = (round_double 2.5, round_double 41.5), m_title = marker_title plain_point\<rparr>],
           l_name = make_layerName ''poi'' (Some ''Madrid''),
           l_category = ''poi'', l_color = fst (color_lookup ''poi'')\<rparr>)],
       console := [Rendered 1 0]\<rparr>))"
proof -
  have d: "detectedCategory [plain_point] = ''poi''"
    by (simp add: detectedCategory_find classify_plain)
  have i: "make_layerId ''poi'' (Some ''Madrid'') 1700000000000 = ''poi_Madrid_1700000000000''"
    by (simp add: make_layerId_def show_int_example)
  show ?thesis
    by (simp add: renderData_def Let_def d i initial_state_fields plain_point_geometry push_marker_def)
qed

lemma legend_categories_updateLegend:
  "map li_category (legend (updateLegend st)) = map li_category (legend st)"
  by (simp add: updateLegend_def Let_def li_category_update_item comp_def)

lemma initial_legend_categories:
  "map li_category (legend initial_state) = filter (\<lambda>k. k \<noteq> ''poi'') (map fst CATEGORIES)"
  by (simp add: initial_state_def initLegend_categories)

text \<open>
  Claim C5 as stated fails for the fallback category: \<open>poi\<close> is a key of the taxonomy, and
  after a render that puts one marker into a \<open>poi\<close> layer the legend has no entry for it.
\<close>

theorem legend_has_no_poi_entry_counterexample:
  "''poi'' \<in> set (map fst CATEGORIES)
   \<and> countsByCategory
        (layers (snd (renderData no_nan initial_state (Some [plain_point]) (Some ''Madrid'') 1700000000000)))
        ''poi'' = 1
   \<and> ''poi'' \<notin> set (map li_category
        (legend (snd (renderData no_nan initial_state (Some [plain_point]) (Some ''Madrid'') 1700000000000))))"
proof -
  have a: "''poi'' \<in> set (map fst CATEGORIES)" by (simp add: CATEGORIES_def)
  have b: "countsByCategory
        (layers (snd (renderData no_nan initial_state (Some [plain_point]) (Some ''Madrid'') 1700000000000)))
        ''poi'' = 1"
    by (simp add: render_plain updateLegend_fields countsByCategory_def)
  have c: "''poi'' \<notin> set (map li_category
        (legend (snd (renderData no_nan initial_state (Some [plain_point]) (Some ''Madrid'') 1700000000000))))"
    by (simp add: render_plain legend_categories_updateLegend initial_legend_categories del: set_map)
  from a b c show ?thesis by blast
qed

theorem legend_synced_after_mutation_witness:
  "map li_category (legend (snd (renderData no_nan initial_state (Some [plain_point]) (Some ''Madrid'') 1700000000000)))
     = map li_category (legend (initLegend
         (snd (renderData no_nan initial_state (Some [plain_point]) (Some ''Madrid'') 1700000000000))))
   \<and> legend_synced (updateLegend
        (snd (renderData no_nan initial_state (Some [plain_point]) (Some ''Madrid'') 1700000000000)))
   \<and> legend_synced (clearAllLayers
        (snd (renderData no_nan initial_state (Some [plain_point]) (Some ''Madrid'') 1700000000000)))
   \<and> legend_synced (removeCategoryLayers ''poi''
        (snd (renderData no_nan initial_state (Some [plain_point]) (Some ''Madrid'') 1700000000000)))
   \<and> map_of (layers (snd (renderData no_nan initial_state (Some [plain_point]) (Some ''Madrid'') 1700000000000)))
        ''poi_Madrid_1700000000000'' \<noteq> None
   \<and> legend_synced (removeLayer ''poi_Madrid_1700000000000''
        (snd (renderData no_nan initial_state (Some [plain_point]) (Some ''Madrid'') 1700000000000)))
   \<and> [cafe_point] \<noteq> []
   \<and> fst (renderData no_nan
        (snd (renderData no_nan initial_state (Some [plain_point]) (Some ''Madrid'') 1700000000000))
        (Some [cafe_point]) (Some ''Madrid'') 1700000000000) = None
   \<and> legend_synced (snd (renderData no_nan
        (snd (renderData no_nan initial_state (Some [plain_point]) (Some ''Madrid'') 1700000000000))
        (Some [cafe_point]) (Some ''Madrid'') 1700000000000))"
proof -
  let ?st1 = "snd (renderData no_nan initial_state (Some [plain_point]) (Some ''Madrid'') 1700000000000)"
  let ?r2 = "renderData no_nan ?st1 (Some [cafe_point]) (Some ''Madrid'') 1700000000000"
  have inv: "map li_category (legend ?st1) = map li_category (legend (initLegend ?st1))"
    by (simp add: render_plain legend_categories_updateLegend initial_legend_categories
          initLegend_categories)
  have l: "layers ?st1 = [(''poi_Madrid_1700000000000'',
          \<lparr>l_markers = [\<lparr>m_lnglat = (round_double 2.5, round_double 41.5), m_title = marker_title plain_point\<rparr>],
           l_name = make_layerName ''poi'' (Some ''Madrid''),
           l_category = ''poi'', l_color = fst (color_lookup ''poi'')\<rparr>)]"
    by (simp add: render_plain updateLegend_fields)
  have m: "map_of (layers ?st1) ''poi_Madrid_1700000000000'' \<noteq> None"
    by (simp add: l)
  have ne: "[cafe_point] \<noteq> []" by simp
  have ws: "list_all (well_shaped no_nan) [cafe_point]"
    by (simp add: well_shaped_def cafe_point_geometry)
  have d: "detectedCategory [cafe_point] = ''cafe''"
    by (simp add: detectedCategory_find classify_cafe)
  have fresh: "map_of (layers ?st1) (make_layerId (detectedCategory [cafe_point]) (Some ''Madrid'') 1700000000000) = None"
    by (simp add: l d make_layerId_def show_int_example)
  have f: "fst ?r2 = None"
    by (simp add: renderData_ok[OF ne ws fresh])
  then have r: "?r2 = (None, snd ?r2)"
    by (simp add: prod_eq_iff)
  from legend_synced_after_mutation[OF inv, of "''poi''" "''poi_Madrid_1700000000000''"
      "[cafe_point]" no_nan "Some ''Madrid''" 1700000000000 "snd ?r2"]
  show ?thesis using inv m ne f r by blast
qed

section \<open>Query normalisation\<close>

lemma replace_out_body_cases:
  "replace_out_body s = s \<or> suffix '';out geom;'' (replace_out_body s)"
  by (induction s) (auto simp: suffix_Cons)

lemma replace_out_body_prefix:
  "prefix p s \<Longrightarrow> CHR '';'' \<notin> set p \<Longrightarrow> prefix p (replace_out_body s)"
proof (induction s arbitrary: p)
  case Nil then show ?case by simp
next
  case (Cons c cs)
  show ?case
  proof (cases p)
    case Nil then show ?thesis by simp
  next
    case (Cons x p')
    with Cons.prems have x: "x = c" and p': "prefix p' cs" and nx: "x \<noteq> CHR '';''" and np: "CHR '';'' \<notin> set p'"
      by auto
    from Cons.IH[OF p' np] x nx Cons show ?thesis by auto
  qed
qed

lemma replace_out_body_timeout:
  "str_includes s ''[timeout:'' \<Longrightarrow> str_includes (replace_out_body s) ''[timeout:''"
proof (induction s)
  case Nil then show ?case by simp
next
  case (Cons c cs)
  show ?case
  proof (cases "c # cs = '';out body;'' \<or> c # cs = '';out body''")
    case True
    with Cons.prems show ?thesis by auto
  next
    case False
    then have r: "replace_out_body (c # cs) = c # replace_out_body cs" by simp
    from Cons.prems have "prefix ''[timeout:'' (c # cs) \<or> str_includes cs ''[timeout:''" by simp
    then show ?thesis
    proof
      assume "prefix ''[timeout:'' (c # cs)"
      from replace_out_body_prefix[OF this] have "prefix ''[timeout:'' (replace_out_body (c # cs))" by simp
      then show ?thesis unfolding r by simp
    next
      assume "str_includes cs ''[timeout:''"
      from Cons.IH[OF this] show ?thesis unfolding r by simp
    qed
  qed
qed

lemma replace_out_body_idem: "replace_out_body (replace_out_body s) = replace_out_body s"
proof (induction s)
  case Nil then show ?case by simp
next
  case (Cons c cs)
  show ?case
  proof (cases "c # cs = '';out body;'' \<or> c # cs = '';out body''")
    case True then show ?thesis by auto
  next
    case False
    then have r: "replace_out_body (c # cs) = c # replace_out_body cs" by simp
    have n: "\<not> (c # replace_out_body cs = '';out body;'' \<or> c # replace_out_body cs = '';out body'')"
    proof
      assume a: "c # replace_out_body cs = '';out body;'' \<or> c # replace_out_body cs = '';out body''"
      from replace_out_body_cases[of cs] show False
      proof
        assume "replace_out_body cs = cs" with a False show False by simp
      next
        assume "suffix '';out geom;'' (replace_out_body cs)"
        with a show False by (auto simp: suffix_to_prefix)
      qed
    qed
    show ?thesis unfolding r using n Cons.IH by simp
  qed
qed

lemma replace_out_body_id:
  "\<not> suffix '';out body;'' s \<Longrightarrow> \<not> suffix '';out body'' s \<Longrightarrow> replace_out_body s = s"
  by (induction s) (auto simp: suffix_Cons)

lemma replace_close_end_cases:
  "(replace_close_end s = s \<and> \<not> suffix '');'' s)
   \<or> (replace_close_end s = s @ ''out geom 500;'' \<and> suffix '');'' s)"
  by (induction s) (auto simp: suffix_Cons)

lemma replace_close_end_id: "\<not> suffix '');'' s \<Longrightarrow> replace_close_end s = s"
  using replace_close_end_cases[of s] by auto

lemma suffix_append_short:
  "suffix x (s @ t) \<Longrightarrow> length x \<le> length t \<Longrightarrow> suffix x t"
  by (auto simp: suffix_append)

lemma str_includes_Nil: "str_includes s []"
  by (cases s) auto

lemma prefix_Cons_append: "prefix p (c # a) \<Longrightarrow> prefix p (c # a @ b)"
  using prefix_prefix[of p "c # a" b] by simp

lemma str_includes_append: "str_includes a p \<Longrightarrow> str_includes (a @ b) p"
  by (induction a) (auto simp: str_includes_Nil dest: prefix_Cons_append)

lemma replace_first_prefix: "prefix p s \<Longrightarrow> replace_first s p r = r @ drop (length p) s"
  by (cases s) auto

lemma trim_id: "s \<noteq> [] \<Longrightarrow> \<not> is_ws (hd s) \<Longrightarrow> \<not> is_ws (last s) \<Longrightarrow> trim s = s"
proof -
  assume ne: "s \<noteq> []" and h: "\<not> is_ws (hd s)" and l: "\<not> is_ws (last s)"
  from ne h have a: "dropWhile is_ws s = s" by (cases s) auto
  from ne l have "\<not> is_ws (hd (rev s))" by (simp add: hd_rev)
  with ne have b: "dropWhile is_ws (rev s) = rev s" by (cases "rev s") auto
  show ?thesis by (simp add: trim_def a b)
qed

lemma trim_last: "trim s \<noteq> [] \<Longrightarrow> \<not> is_ws (last (trim s))"
proof -
  assume ne: "trim s \<noteq> []"
  let ?d = "dropWhile is_ws (rev (dropWhile is_ws s))"
  from ne have dne: "?d \<noteq> []" by (simp add: trim_def)
  then have "\<not> is_ws (hd ?d)" by (rule hd_dropWhile)
  with dne show ?thesis by (simp add: trim_def last_rev)
qed


lemma last_replace_out_body:
  "s \<noteq> [] \<Longrightarrow> \<not> is_ws (last s) \<Longrightarrow>
   replace_out_body s \<noteq> [] \<and> \<not> is_ws (last (replace_out_body s))"
proof -
  assume ne: "s \<noteq> []" and l: "\<not> is_ws (last s)"
  from replace_out_body_cases[of s] show ?thesis
  proof
    assume "replace_out_body s = s" with ne l show ?thesis by simp
  next
    assume "suffix '';out geom;'' (replace_out_body s)"
    then obtain a where "replace_out_body s = a @ '';out geom;''" by (auto simp: suffix_def)
    then show ?thesis by (simp add: is_ws_def)
  qed
qed

lemma last_replace_close_end:
  "s \<noteq> [] \<Longrightarrow> \<not> is_ws (last s) \<Longrightarrow>
   replace_close_end s \<noteq> [] \<and> \<not> is_ws (last (replace_close_end s))"
  using replace_close_end_cases[of s] by (auto simp: is_ws_def)

lemma fullQuery_steps:
  "fullQuery query =
    (if \<not> matches_close (replace_out_body (with_directive query))
     then replace_close_end (replace_out_body (with_directive query))
     else replace_out_body (with_directive query))"
  by (simp add: fullQuery_def with_directive_def Let_def)

lemma with_directive_prefix: "prefix ''[out:json]'' (with_directive q)"
  by (auto simp: with_directive_def Let_def replace_first_prefix)

lemma with_directive_timeout: "str_includes (with_directive q) ''[timeout:''"
proof -
  have a: "str_includes ''[out:json][timeout:25];'' ''[timeout:''" by simp
  have b: "str_includes ''[out:json][timeout:25]'' ''[timeout:''" by simp
  show ?thesis
    using str_includes_append[OF a] str_includes_append[OF b]
    by (simp add: with_directive_def Let_def replace_first_prefix)
qed

lemma with_directive_last:
  "with_directive q \<noteq> [] \<and> \<not> is_ws (last (with_directive q))"
proof (cases "prefix ''[out:json]'' (trim q)")
  case False
  then have w: "with_directive q = ''[out:json][timeout:25];'' @ trim q"
    by (simp add: with_directive_def)
  show ?thesis
  proof (cases "trim q = []")
    case True with w show ?thesis by (simp add: is_ws_def)
  next
    case F: False
    with w trim_last[OF F] show ?thesis by simp
  qed
next
  case True
  then have ne: "trim q \<noteq> []" by auto
  note l = trim_last[OF ne]
  show ?thesis
  proof (cases "str_includes (trim q) ''[timeout:''")
    case T: True
    with True ne l show ?thesis by (simp add: with_directive_def)
  next
    case False
    with True have "\<exists>n. with_directive q = ''[out:json][timeout:25]'' @ drop n (trim q)"
      by (auto simp: with_directive_def replace_first_prefix)
    then obtain n where w: "with_directive q = ''[out:json][timeout:25]'' @ drop n (trim q)" ..
    show ?thesis
    proof (cases "drop n (trim q) = []")
      case T: True with w show ?thesis by (simp add: is_ws_def)
    next
      case F: False
      then have "last (drop n (trim q)) = last (trim q)" by (simp add: last_drop)
      with w F l show ?thesis by simp
    qed
  qed
qed

lemma fullQuery_prefix: "prefix ''[out:json]'' (fullQuery q)"
proof -
  have p: "prefix ''[out:json]'' (replace_out_body (with_directive q))"
    by (rule replace_out_body_prefix[OF with_directive_prefix]) simp
  from replace_close_end_cases[of "replace_out_body (with_directive q)"] p
  show ?thesis unfolding fullQuery_steps by (auto intro: prefix_prefix)
qed

lemma fullQuery_timeout: "str_includes (fullQuery q) ''[timeout:''"
proof -
  have p: "str_includes (replace_out_body (with_directive q)) ''[timeout:''"
    by (rule replace_out_body_timeout[OF with_directive_timeout])
  from replace_close_end_cases[of "replace_out_body (with_directive q)"] p
  show ?thesis unfolding fullQuery_steps by (auto intro: str_includes_append)
qed

lemma fullQuery_trimmed: "trim (fullQuery q) = fullQuery q"
proof -
  from with_directive_last[of q]
  have a: "replace_out_body (with_directive q) \<noteq> [] \<and> \<not> is_ws (last (replace_out_body (with_directive q)))"
    using last_replace_out_body[of "with_directive q"] by blast
  then have b: "replace_close_end (replace_out_body (with_directive q)) \<noteq> []
       \<and> \<not> is_ws (last (replace_close_end (replace_out_body (with_directive q))))"
    using last_replace_close_end by blast
  from a b have ne: "fullQuery q \<noteq> []" and l: "\<not> is_ws (last (fullQuery q))"
    unfolding fullQuery_steps by auto
  from fullQuery_prefix[of q] ne have "hd (fullQuery q) = CHR ''[''"
    by (cases "fullQuery q") auto
  then have h: "\<not> is_ws (hd (fullQuery q))" by (simp add: is_ws_def)
  from trim_id[OF ne h l] show ?thesis .
qed

lemma fullQuery_no_out_body: "replace_out_body (fullQuery q) = fullQuery q"
proof -
  let ?q2 = "replace_out_body (with_directive q)"
  have i: "replace_out_body ?q2 = ?q2" by (rule replace_out_body_idem)
  have t: "replace_out_body (?q2 @ ''out geom 500;'') = ?q2 @ ''out geom 500;''"
  proof (rule replace_out_body_id)
    show "\<not> suffix '';out body;'' (?q2 @ ''out geom 500;'')"
    proof
      assume "suffix '';out body;'' (?q2 @ ''out geom 500;'')"
      then have "suffix '';out body;'' ''out geom 500;''" by (rule suffix_append_short) simp
      then show False by (simp add: suffix_to_prefix)
    qed
    show "\<not> suffix '';out body'' (?q2 @ ''out geom 500;'')"
    proof
      assume "suffix '';out body'' (?q2 @ ''out geom 500;'')"
      then have "suffix '';out body'' ''out geom 500;''" by (rule suffix_append_short) simp
      then show False by (simp add: suffix_to_prefix)
    qed
  qed
  from replace_close_end_cases[of ?q2] i t show ?thesis
    unfolding fullQuery_steps by auto
qed

lemma fullQuery_closed: "matches_close (fullQuery q) \<or> replace_close_end (fullQuery q) = fullQuery q"
proof -
  let ?q2 = "replace_out_body (with_directive q)"
  have t: "replace_close_end (?q2 @ ''out geom 500;'') = ?q2 @ ''out geom 500;''"
  proof (rule replace_close_end_id)
    show "\<not> suffix '');'' (?q2 @ ''out geom 500;'')"
    proof
      assume "suffix '');'' (?q2 @ ''out geom 500;'')"
      then have "suffix '');'' ''out geom 500;''" by (rule suffix_append_short) simp
      then show False by (simp add: suffix_to_prefix)
    qed
  qed
  from replace_close_end_cases[of ?q2] t show ?thesis
    unfolding fullQuery_steps by auto
qed

text \<open>
  Claim C8. Normalising a query that the normalisation has produced changes nothing: for
  every raw query string \<open>q\<close>, \<open>fullQuery (fullQuery q) = fullQuery q\<close>.
\<close>

theorem fullQuery_idempotent: "fullQuery (fullQuery q) = fullQuery q"
proof -
  have w: "with_directive (fullQuery q) = fullQuery q"
    using fullQuery_prefix[of q] fullQuery_timeout[of q]
    by (simp add: with_directive_def fullQuery_trimmed)
  from fullQuery_closed[of q] show ?thesis
    by (subst fullQuery_steps) (auto simp: w fullQuery_no_out_body)
qed

text \<open>
  Claim C3 fails on the code. A query without output-format directive that ends in
  \<open>;out body;\<close> gets the directive with its timeout and \<open>out geom;\<close>, but no statement with
  the cap of 500: the cap is appended only to a query that ends in \<open>);\<close>, and not even
  then when \<open>);\<close>, white space and \<open>)\<close> occur in it, as in every union query.
\<close>

theorem fullQuery_no_cap:
  "fullQuery ''node[amenity=cafe](40.3,-3.8,40.5,-3.6);out body;''
     = ''[out:json][timeout:25];node[amenity=cafe](40.3,-3.8,40.5,-3.6);out geom;''
   \<and> \<not> suffix ''out geom 500;'' (fullQuery ''node[amenity=cafe](40.3,-3.8,40.5,-3.6);out body;'')
   \<and> \<not> str_includes (fullQuery ''node[amenity=cafe](40.3,-3.8,40.5,-3.6);out body;'') ''500''
   \<and> fullQuery ''(node[amenity=cafe](40.3,-3.8,40.5,-3.6);way[amenity=cafe](40.3,-3.8,40.5,-3.6););out body;''
     = ''[out:json][timeout:25];(node[amenity=cafe](40.3,-3.8,40.5,-3.6);way[amenity=cafe](40.3,-3.8,40.5,-3.6););out geom;''"
proof -
  have a: "fullQuery ''node[amenity=cafe](40.3,-3.8,40.5,-3.6);out body;''
     = ''[out:json][timeout:25];node[amenity=cafe](40.3,-3.8,40.5,-3.6);out geom;''"
    by (simp add: fullQuery_def trim_def is_ws_def)
  have b: "fullQuery ''(node[amenity=cafe](40.3,-3.8,40.5,-3.6);way[amenity=cafe](40.3,-3.8,40.5,-3.6););out body;''
     = ''[out:json][timeout:25];(node[amenity=cafe](40.3,-3.8,40.5,-3.6);way[amenity=cafe](40.3,-3.8,40.5,-3.6););out geom;''"
    by (simp add: fullQuery_def trim_def is_ws_def)
  have c: "\<not> suffix ''out geom 500;'' ''[out:json][timeout:25];node[amenity=cafe](40.3,-3.8,40.5,-3.6);out geom;''"
    by (simp add: suffix_to_prefix)
  have d: "\<not> str_includes ''[out:json][timeout:25];node[amenity=cafe](40.3,-3.8,40.5,-3.6);out geom;'' ''500''"
    by simp
  from a b c d show ?thesis by simp
qed

end
